theory Spec2Isabelle
  imports
    Complex_Main
    "HOL-Library.Word"
    "HOL-Library.Char_ord"
    "HOL-Library.List_Lexorder"
    "HOL-Library.Multiset"
begin

unbundle bit_operations_syntax

section \<open>Python values and exceptions\<close>

text \<open>
  The governance code is dynamically typed: the dictionaries it reads (pipeline steps,
  registry metadata, database rows) hold values of any type, and an operation applied
  to the wrong type raises.  \<open>pyval\<close> is the universe of those values.  A \<open>float\<close> is
  represented by the rational number it denotes (no NaN, no infinities), a naive
  \<open>datetime\<close> by its microseconds since the epoch, a \<open>dict\<close> by its items in insertion
  order (keys are strings).
\<close>

type_synonym datetime = int

datatype pyval =
    PNone
  | PBool bool
  | PInt int
  | PFloat rat
  | PStr string
  | PTime datetime
  | PList "pyval list"
  | PDict "(string \<times> pyval) list"

text \<open>
  Exceptions, all subclasses of Python's \<open>Exception\<close>, each with its message
  (\<open>str(e)\<close>; for a \<open>KeyError\<close>, the \<open>repr\<close> of the key).  \<open>CollaboratorError\<close> stands
  for whatever a storage backend or the model registry raises.
\<close>

datatype exc =
    ValueError string
  | TypeError string
  | KeyError string
  | AttributeError string
  | IndexError string
  | CollaboratorError string

text \<open>\<open>repr\<close> of a string without quotes or escapes in it: the string in single quotes.\<close>

definition quoted :: "string \<Rightarrow> string" where
  "quoted s = [CHR 0x27] @ s @ [CHR 0x27]"

fun exc_str :: "exc \<Rightarrow> string" where
  "exc_str (ValueError m) = m"
| "exc_str (TypeError m) = m"
| "exc_str (KeyError m) = m"
| "exc_str (AttributeError m) = m"
| "exc_str (IndexError m) = m"
| "exc_str (CollaboratorError m) = m"

text \<open>Sequencing of computations that may raise: the first exception wins.\<close>

definition pbind :: "exc + 'a \<Rightarrow> ('a \<Rightarrow> exc + 'b) \<Rightarrow> exc + 'b" where
  "pbind m f = (case m of Inl e \<Rightarrow> Inl e | Inr v \<Rightarrow> f v)"

lemma pbind_simps [simp]:
  "pbind (Inl e) f = Inl e"
  "pbind (Inr v) f = f v"
  by (simp_all add: pbind_def)

lemma pbind_cong [fundef_cong]:
  "m = m' \<Longrightarrow> (\<And>v. m' = Inr v \<Longrightarrow> f v = f' v) \<Longrightarrow> pbind m f = pbind m' f'"
  by (cases m') (simp_all add: pbind_def)

fun type_name :: "pyval \<Rightarrow> string" where
  "type_name PNone = ''NoneType''"
| "type_name (PBool _) = ''bool''"
| "type_name (PInt _) = ''int''"
| "type_name (PFloat _) = ''float''"
| "type_name (PStr _) = ''str''"
| "type_name (PTime _) = ''datetime.datetime''"
| "type_name (PList _) = ''list''"
| "type_name (PDict _) = ''dict''"

text \<open>Truth value testing (\<open>if x\<close>, \<open>not x\<close>, \<open>x and y\<close>); a datetime is always true.\<close>

fun truthy :: "pyval \<Rightarrow> bool" where
  "truthy PNone = False"
| "truthy (PBool b) = b"
| "truthy (PInt i) = (i \<noteq> 0)"
| "truthy (PFloat r) = (r \<noteq> 0)"
| "truthy (PStr s) = (s \<noteq> [])"
| "truthy (PTime _) = True"
| "truthy (PList xs) = (xs \<noteq> [])"
| "truthy (PDict kvs) = (kvs \<noteq> [])"

text \<open>The numeric tower: \<open>bool\<close> is a subclass of \<open>int\<close>, and \<open>int\<close> and \<open>float\<close> compare by value.\<close>

fun num_of :: "pyval \<Rightarrow> rat option" where
  "num_of (PBool b) = Some (if b then 1 else 0)"
| "num_of (PInt i) = Some (of_int i)"
| "num_of (PFloat r) = Some r"
| "num_of _ = None"


lemma size_PList_elem: "x \<in> set xs \<Longrightarrow> size x < size (PList xs)"
  by (induction xs) auto

lemma size_PDict_snd: "kv \<in> set kvs \<Longrightarrow> size (snd kv) < size (PDict kvs)"
  by (induction kvs) auto

lemma size_PDict_map_of: "map_of kvs k = Some v \<Longrightarrow> size v < size (PDict kvs)"
  by (induction kvs) (auto split: if_splits)

text \<open>
  \<open>a == b\<close>: numbers by value, lists elementwise, dictionaries by their key sets and the
  values under each key (insertion order does not matter), everything else by type and
  value.
\<close>

function py_eq :: "pyval \<Rightarrow> pyval \<Rightarrow> bool" where
  "py_eq a b =
     (case (a, b) of
        (PList xs, PList ys) \<Rightarrow> list_all2 py_eq xs ys
      | (PDict xs, PDict ys) \<Rightarrow>
          length xs = length ys \<and>
          list_all (\<lambda>kv. case map_of ys (fst kv) of None \<Rightarrow> False | Some v' \<Rightarrow> py_eq (snd kv) v') xs
      | _ \<Rightarrow> (case (num_of a, num_of b) of
                (Some x, Some y) \<Rightarrow> x = y
              | _ \<Rightarrow> a = b))"
  by pat_completeness auto
termination
proof (relation "measure (\<lambda>(a, b). size a + size b)", goal_cases)
  case 1
  show ?case by simp
next
  case (2 a b x y xs ys u v)
  then show ?case
    using size_PList_elem [of u xs] size_PList_elem [of v ys] by auto
next
  case (3 a b x y xs ys kv v')
  then show ?case
    using size_PDict_snd [of kv xs] size_PDict_map_of [of ys "fst kv" v'] by auto
qed

declare py_eq.simps [simp del]

lemma py_eq_PStr [simp]: "py_eq (PStr s) b = (b = PStr s)"
  by (cases b) (auto simp: py_eq.simps)

lemma py_eq_PTime [simp]: "py_eq (PTime s) b = (b = PTime s)"
  by (cases b) (auto simp: py_eq.simps)

lemma py_eq_PNone [simp]: "py_eq PNone b = (b = PNone)"
  by (cases b) (auto simp: py_eq.simps)


lemma find_zip_sizes:
  assumes "find P (zip xs ys) = Some (x, y)"
  shows "size x < size (PList xs) \<and> size y < size (PList ys)"
proof -
  from assms obtain i where "i < length (zip xs ys)" and "(x, y) = zip xs ys ! i"
    by (auto simp: find_Some_iff)
  then have "(x, y) \<in> set (zip xs ys)"
    by (metis nth_mem)
  then have "x \<in> set xs" and "y \<in> set ys"
    by (auto dest: set_zip_leftD set_zip_rightD)
  then show ?thesis
    using size_PList_elem by blast
qed

definition unsupported_operands :: "string \<Rightarrow> pyval \<Rightarrow> pyval \<Rightarrow> exc" where
  "unsupported_operands opr a b =
     TypeError (quoted opr @ '' not supported between instances of '' @
                quoted (type_name a) @ '' and '' @ quoted (type_name b))"

text \<open>
  \<open>a < b\<close>: defined between two numbers, two strings, two datetimes and two lists (by
  the first pair of items that differ, else by length); a \<open>TypeError\<close> otherwise.
\<close>

function py_lt :: "pyval \<Rightarrow> pyval \<Rightarrow> exc + bool" where
  "py_lt a b =
     (case (a, b) of
        (PStr s, PStr t) \<Rightarrow> Inr (s < t)
      | (PTime s, PTime t) \<Rightarrow> Inr (s < t)
      | (PList xs, PList ys) \<Rightarrow>
          (case find (\<lambda>(x, y). \<not> py_eq x y) (zip xs ys) of
             None \<Rightarrow> Inr (length xs < length ys)
           | Some (x, y) \<Rightarrow> py_lt x y)
      | _ \<Rightarrow> (case (num_of a, num_of b) of
                (Some x, Some y) \<Rightarrow> Inr (x < y)
              | _ \<Rightarrow> Inl (unsupported_operands ''<'' a b)))"
  by pat_completeness auto
termination
proof (relation "measure (\<lambda>(a, b). size a + size b)", goal_cases)
  case 1
  show ?case by simp
next
  case (2 a b x y xs ys p u v)
  then show ?case
    using find_zip_sizes [of "\<lambda>(x, y). \<not> py_eq x y" xs ys u v] by auto
qed

declare py_lt.simps [simp del]

lemma py_lt_PTime [simp]: "py_lt (PTime s) (PTime t) = Inr (s < t)"
  by (simp add: py_lt.simps)

text \<open>\<open>a > b\<close> is \<open>b < a\<close> with the operands named in the order written.\<close>

definition py_gt :: "pyval \<Rightarrow> pyval \<Rightarrow> exc + bool" where
  "py_gt a b = (case py_lt b a of Inl _ \<Rightarrow> Inl (unsupported_operands ''>'' a b) | Inr r \<Rightarrow> Inr r)"

section \<open>Dictionaries\<close>

type_synonym pydict = "(string \<times> pyval) list"

text \<open>\<open>d.get(k, default)\<close>, \<open>k in d\<close>, \<open>d[k]\<close> and \<open>d[k] = v\<close> on a dictionary.\<close>

definition dict_get :: "pydict \<Rightarrow> string \<Rightarrow> pyval \<Rightarrow> pyval" where
  "dict_get d k dflt = (case map_of d k of None \<Rightarrow> dflt | Some v \<Rightarrow> v)"

definition has_key :: "pydict \<Rightarrow> string \<Rightarrow> bool" where
  "has_key d k = (map_of d k \<noteq> None)"

definition dict_item :: "pydict \<Rightarrow> string \<Rightarrow> exc + pyval" where
  "dict_item d k = (case map_of d k of None \<Rightarrow> Inl (KeyError (quoted k)) | Some v \<Rightarrow> Inr v)"

fun dict_set :: "pydict \<Rightarrow> string \<Rightarrow> pyval \<Rightarrow> pydict" where
  "dict_set [] k v = [(k, v)]"
| "dict_set ((k', v') # rest) k v =
     (if k' = k then (k, v) # rest else (k', v') # dict_set rest k v)"

section \<open>The lineage record and its integrity check\<close>

text \<open>
  \<open>DataLineage\<close> of \<open>data_lineage.py\<close>, with the field types its dataclass declares; a
  pipeline step is a dictionary.
\<close>

record DataLineage =
  dataset_id :: string
  source_systems :: "string list"
  extraction_timestamp :: datetime
  transformation_pipeline :: "pydict list"
  data_quality_metrics :: pydict
  content_hash :: string

definition required_fields :: "string list" where
  "required_fields = [''step'', ''input_hash'', ''output_hash'', ''timestamp'']"

text \<open>
  The first loop of \<open>validate_lineage_chain\<close>: \<open>step_time and step_time < prev_timestamp\<close>
  skips the comparison for a falsy timestamp, and \<open>prev_timestamp\<close> becomes the step's
  timestamp whatever it is.
\<close>

fun check_timestamp_ordering :: "pyval \<Rightarrow> pydict list \<Rightarrow> exc + bool" where
  "check_timestamp_ordering prev_timestamp [] = Inr True"
| "check_timestamp_ordering prev_timestamp (step # rest) =
     (let step_time = dict_get step ''timestamp'' PNone in
      pbind (if truthy step_time then py_lt step_time prev_timestamp else Inr False)
        (\<lambda>went_backwards.
           if went_backwards then Inr False
           else check_timestamp_ordering step_time rest))"

text \<open>The second loop: every step has every required key.\<close>

definition check_required_fields :: "pydict list \<Rightarrow> bool" where
  "check_required_fields pipeline =
     list_all (\<lambda>step. list_all (has_key step) required_fields) pipeline"

text \<open>The third loop, over the indices \<open>range(1, len(pipeline))\<close>.\<close>

fun check_hash_continuity :: "pydict list \<Rightarrow> nat list \<Rightarrow> exc + bool" where
  "check_hash_continuity pipeline [] = Inr True"
| "check_hash_continuity pipeline (i # rest) =
     pbind (dict_item (pipeline ! (i - 1)) ''output_hash'') (\<lambda>prev_output.
     pbind (dict_item (pipeline ! i) ''input_hash'') (\<lambda>current_input.
       if \<not> py_eq prev_output current_input then Inr False
       else check_hash_continuity pipeline rest))"

definition validate_lineage_chain :: "DataLineage \<Rightarrow> exc + bool" where
  "validate_lineage_chain self =
     (let pipeline = transformation_pipeline self in
      if pipeline = [] then Inr False
      else
        pbind (check_timestamp_ordering (PTime (extraction_timestamp self)) pipeline) (\<lambda>ordered.
          if \<not> ordered then Inr False
          else if \<not> check_required_fields pipeline then Inr False
          else
            pbind (check_hash_continuity pipeline [1..<length pipeline]) (\<lambda>continuous.
              if \<not> continuous then Inr False
              else if length pipeline > 0 then
                pbind (dict_item (last pipeline) ''output_hash'') (\<lambda>last_output.
                  if \<not> py_eq (PStr (content_hash self)) last_output then Inr False
                  else Inr True)
              else Inr True)))"

subsection \<open>The vocabulary of the specification's lineage properties\<close>

text \<open>A step's timestamp when it is a datetime.\<close>

definition step_time :: "pydict \<Rightarrow> datetime option" where
  "step_time step = (case map_of step ''timestamp'' of Some (PTime t) \<Rightarrow> Some t | _ \<Rightarrow> None)"

text \<open>Hash continuity between a step and its successor, by Python's \<open>==\<close>.\<close>

definition hash_linked :: "pydict \<Rightarrow> pydict \<Rightarrow> bool" where
  "hash_linked prev cur =
     (case (map_of prev ''output_hash'', map_of cur ''input_hash'') of
        (Some prev_output, Some current_input) \<Rightarrow> py_eq prev_output current_input
      | _ \<Rightarrow> False)"

text \<open>
  The specification's round-trip record: a non-empty pipeline, every step with the four
  fields, datetimes that never decrease from one step to the next, each step's input
  hash equal to its predecessor's output hash, and the content hash equal to the last
  output hash.  It says nothing about the record's extraction timestamp.
\<close>

definition spec_round_trip_record :: "DataLineage \<Rightarrow> bool" where
  "spec_round_trip_record r =
     (let p = transformation_pipeline r in
      p \<noteq> [] \<and>
      (\<forall>s \<in> set p. \<forall>f \<in> set required_fields. has_key s f) \<and>
      (\<forall>s \<in> set p. step_time s \<noteq> None) \<and>
      sorted (map (\<lambda>s. the (step_time s)) p) \<and>
      (\<forall>i \<in> set [1..<length p]. hash_linked (p ! (i - 1)) (p ! i)) \<and>
      map_of (last p) ''output_hash'' = Some (PStr (content_hash r)))"

subsection \<open>Records of the test suite and of the scenarios\<close>

definition test_step :: "string \<Rightarrow> string \<Rightarrow> string \<Rightarrow> pyval \<Rightarrow> pydict" where
  "test_step name inp out ts =
     [(''step'', PStr name), (''input_hash'', PStr inp), (''output_hash'', PStr out),
      (''timestamp'', ts)]"

definition test_lineage :: "datetime \<Rightarrow> pydict list \<Rightarrow> string \<Rightarrow> DataLineage" where
  "test_lineage t0 pipeline h =
     \<lparr>dataset_id = ''test_123'', source_systems = [''test_db''], extraction_timestamp = t0,
      transformation_pipeline = pipeline, data_quality_metrics = [], content_hash = h\<rparr>"

definition valid_two_step_record :: DataLineage where
  "valid_two_step_record =
     test_lineage 100
       [test_step ''extraction'' [] ''abc123'' (PTime 101),
        test_step ''transform1'' ''abc123'' ''def456'' (PTime 102)]
       ''def456''"

definition broken_chain_record :: DataLineage where
  "broken_chain_record =
     test_lineage 100
       [test_step ''step1'' [] ''abc123'' (PTime 101),
        test_step ''step2'' ''xyz789'' ''def456'' (PTime 102)]
       ''def456''"

definition early_step_record :: DataLineage where
  "early_step_record =
     test_lineage 100 [test_step ''extraction'' [] ''abc123'' (PTime 99)] ''abc123''"

definition undated_then_dated_record :: DataLineage where
  "undated_then_dated_record =
     test_lineage 100
       [[(''step'', PStr ''extraction''), (''input_hash'', PStr []), (''output_hash'', PStr ''h1'')],
        test_step ''transform1'' ''h1'' ''h2'' (PTime 101)]
       ''h2''"

section \<open>The Python runtime the model does not interpret\<close>

text \<open>
  The clock and the formatting of floats and dates are library behaviour on which no
  property below depends; they are parameters.  \<open>now\<close> is the reading of
  \<open>datetime.now()\<close> (one instant for a whole call), \<open>float_repr\<close> is \<open>repr\<close> of a float,
  \<open>isoformat\<close> is \<open>datetime.isoformat\<close>, \<open>format_percent\<close> is the format \<open>:.2%\<close> of a number
  and \<open>py_str\<close> is \<open>str\<close> of a value.
\<close>

record runtime =
  now :: datetime
  float_repr :: "rat \<Rightarrow> string"
  isoformat :: "datetime \<Rightarrow> string"
  format_percent :: "rat \<Rightarrow> string"
  py_str :: "pyval \<Rightarrow> string"

section \<open>Decimal and hexadecimal digits\<close>

definition hex_digit :: "nat \<Rightarrow> char" where
  "hex_digit n = ''0123456789abcdef'' ! n"

function str_nat :: "nat \<Rightarrow> string" where
  "str_nat n = (if n < 10 then [hex_digit n] else str_nat (n div 10) @ [hex_digit (n mod 10)])"
  by pat_completeness auto
termination
  by (relation "measure id") auto

declare str_nat.simps [simp del]

definition str_int :: "int \<Rightarrow> string" where
  "str_int i = (if i < 0 then ''-'' @ str_nat (nat (- i)) else str_nat (nat i))"

fun join_with :: "string \<Rightarrow> string list \<Rightarrow> string" where
  "join_with sep [] = []"
| "join_with sep [s] = s"
| "join_with sep (s # t # rest) = s @ sep @ join_with sep (t # rest)"

section \<open>\<open>json.dumps\<close>\<close>

text \<open>
  The values \<open>json.dumps\<close> serialises here: \<open>None\<close>, booleans, integers, finite floats,
  strings (code points below 256), lists, and dictionaries with string keys, in
  insertion order.
\<close>

datatype json =
    JNull
  | JBool bool
  | JInt int
  | JFloat rat
  | JStr string
  | JList "json list"
  | JDict "(string \<times> json) list"

text \<open>
  String encoding with \<open>ensure_ascii=True\<close> (the default): the two-character escapes,
  \<open>\u00XX\<close> for every other character outside the printable ASCII range.
\<close>

definition json_escape_char :: "char \<Rightarrow> string" where
  "json_escape_char c =
     (if c = CHR 0x22 then [CHR 0x5C, CHR 0x22]
      else if c = CHR 0x5C then [CHR 0x5C, CHR 0x5C]
      else if c = CHR 0x0A then [CHR 0x5C, CHR ''n'']
      else if c = CHR 0x0D then [CHR 0x5C, CHR ''r'']
      else if c = CHR 0x09 then [CHR 0x5C, CHR ''t'']
      else if c = CHR 0x08 then [CHR 0x5C, CHR ''b'']
      else if c = CHR 0x0C then [CHR 0x5C, CHR ''f'']
      else if (of_char c :: nat) < 0x20 \<or> (of_char c :: nat) > 0x7E then
        [CHR 0x5C, CHR ''u'', CHR ''0'', CHR ''0'',
         hex_digit (of_char c div 16), hex_digit (of_char c mod 16)]
      else [c])"

definition json_string :: "string \<Rightarrow> string" where
  "json_string s = [CHR 0x22] @ concat (map json_escape_char s) @ [CHR 0x22]"

lemma size_JList_elem: "x \<in> set xs \<Longrightarrow> size x < size (JList xs)"
  by (induction xs) auto

lemma size_JDict_snd: "(k, v) \<in> set kvs \<Longrightarrow> size v < size (JDict kvs)"
  by (induction kvs) auto

text \<open>
  \<open>json.dumps(obj, sort_keys=sort_keys)\<close> with the default separators.  With
  \<open>sort_keys\<close>, the items of every dictionary are written in the order of their keys.
\<close>

function dumps :: "(rat \<Rightarrow> string) \<Rightarrow> bool \<Rightarrow> json \<Rightarrow> string" where
  "dumps fr sort_keys JNull = ''null''"
| "dumps fr sort_keys (JBool b) = (if b then ''true'' else ''false'')"
| "dumps fr sort_keys (JInt i) = str_int i"
| "dumps fr sort_keys (JFloat r) = fr r"
| "dumps fr sort_keys (JStr s) = json_string s"
| "dumps fr sort_keys (JList xs) =
     ''['' @ join_with '', '' (map (dumps fr sort_keys) xs) @ '']''"
| "dumps fr sort_keys (JDict kvs) =
     ''{'' @ join_with '', ''
        (map (\<lambda>(k, v). json_string k @ '': '' @ dumps fr sort_keys v)
           (if sort_keys then sort_key fst kvs else kvs)) @ ''}''"
  by pat_completeness auto
termination
proof (relation "measure (\<lambda>(fr, sort_keys, j). size j)", goal_cases)
  case 1
  show ?case by simp
next
  case (2 fr sort_keys xs x)
  then show ?case
    using size_JList_elem [of x xs] by simp
next
  case (3 fr sort_keys kvs kv k v)
  then have "(k, v) \<in> set kvs"
    by (auto split: if_splits)
  then show ?case
    using size_JDict_snd [of k v kvs] by simp
qed

section \<open>SHA-256 (FIPS 180-4)\<close>

definition sha256_K :: "32 word list" where
  "sha256_K =
     [0x428A2F98, 0x71374491, 0xB5C0FBCF, 0xE9B5DBA5,
      0x3956C25B, 0x59F111F1, 0x923F82A4, 0xAB1C5ED5,
      0xD807AA98, 0x12835B01, 0x243185BE, 0x550C7DC3,
      0x72BE5D74, 0x80DEB1FE, 0x9BDC06A7, 0xC19BF174,
      0xE49B69C1, 0xEFBE4786, 0x0FC19DC6, 0x240CA1CC,
      0x2DE92C6F, 0x4A7484AA, 0x5CB0A9DC, 0x76F988DA,
      0x983E5152, 0xA831C66D, 0xB00327C8, 0xBF597FC7,
      0xC6E00BF3, 0xD5A79147, 0x06CA6351, 0x14292967,
      0x27B70A85, 0x2E1B2138, 0x4D2C6DFC, 0x53380D13,
      0x650A7354, 0x766A0ABB, 0x81C2C92E, 0x92722C85,
      0xA2BFE8A1, 0xA81A664B, 0xC24B8B70, 0xC76C51A3,
      0xD192E819, 0xD6990624, 0xF40E3585, 0x106AA070,
      0x19A4C116, 0x1E376C08, 0x2748774C, 0x34B0BCB5,
      0x391C0CB3, 0x4ED8AA4A, 0x5B9CCA4F, 0x682E6FF3,
      0x748F82EE, 0x78A5636F, 0x84C87814, 0x8CC70208,
      0x90BEFFFA, 0xA4506CEB, 0xBEF9A3F7, 0xC67178F2]"

datatype sha256_state =
  Sha256_State "32 word" "32 word" "32 word" "32 word" "32 word" "32 word" "32 word" "32 word"

definition sha256_init :: sha256_state where
  "sha256_init =
     Sha256_State 0x6A09E667 0xBB67AE85 0x3C6EF372 0xA54FF53A
                  0x510E527F 0x9B05688C 0x1F83D9AB 0x5BE0CD19"

definition Ch :: "32 word \<Rightarrow> 32 word \<Rightarrow> 32 word \<Rightarrow> 32 word" where
  "Ch x y z = (x AND y) XOR (NOT x AND z)"

definition Maj :: "32 word \<Rightarrow> 32 word \<Rightarrow> 32 word \<Rightarrow> 32 word" where
  "Maj x y z = (x AND y) XOR (x AND z) XOR (y AND z)"

definition Sigma0 :: "32 word \<Rightarrow> 32 word" where
  "Sigma0 x = word_rotr 2 x XOR word_rotr 13 x XOR word_rotr 22 x"

definition Sigma1 :: "32 word \<Rightarrow> 32 word" where
  "Sigma1 x = word_rotr 6 x XOR word_rotr 11 x XOR word_rotr 25 x"

definition sigma0 :: "32 word \<Rightarrow> 32 word" where
  "sigma0 x = word_rotr 7 x XOR word_rotr 18 x XOR drop_bit 3 x"

definition sigma1 :: "32 word \<Rightarrow> 32 word" where
  "sigma1 x = word_rotr 17 x XOR word_rotr 19 x XOR drop_bit 10 x"

text \<open>Padding: the bit 1, zeros up to 56 modulo 64 bytes, the bit length on 8 bytes.\<close>

definition sha256_pad :: "nat list \<Rightarrow> nat list" where
  "sha256_pad msg =
     msg @ [0x80] @ replicate ((119 - length msg mod 64) mod 64) 0 @
     map (\<lambda>i. (8 * length msg) div 256 ^ i mod 256) [7, 6, 5, 4, 3, 2, 1, 0]"

text \<open>The sixteen big-endian words of the block at index \<open>i\<close>.\<close>

definition sha256_block :: "nat list \<Rightarrow> nat \<Rightarrow> 32 word list" where
  "sha256_block bytes i =
     map (\<lambda>j. word_of_nat
            (((bytes ! (64 * i + 4 * j) * 256 + bytes ! (64 * i + 4 * j + 1)) * 256
               + bytes ! (64 * i + 4 * j + 2)) * 256 + bytes ! (64 * i + 4 * j + 3)))
       [0..<16]"

fun sha256_schedule :: "nat \<Rightarrow> 32 word list \<Rightarrow> 32 word list" where
  "sha256_schedule 0 w = w"
| "sha256_schedule (Suc n) w =
     sha256_schedule n
       (w @ [sigma1 (w ! (length w - 2)) + w ! (length w - 7) +
             sigma0 (w ! (length w - 15)) + w ! (length w - 16)])"

fun sha256_round :: "sha256_state \<Rightarrow> 32 word \<times> 32 word \<Rightarrow> sha256_state" where
  "sha256_round (Sha256_State a b c d e f g h) (k, w) =
     (let T1 = h + Sigma1 e + Ch e f g + k + w;
          T2 = Sigma0 a + Maj a b c
      in Sha256_State (T1 + T2) a b c (d + T1) e f g)"

fun sha256_add :: "sha256_state \<Rightarrow> sha256_state \<Rightarrow> sha256_state" where
  "sha256_add (Sha256_State a b c d e f g h) (Sha256_State a' b' c' d' e' f' g' h') =
     Sha256_State (a + a') (b + b') (c + c') (d + d') (e + e') (f + f') (g + g') (h + h')"

definition sha256_compress :: "sha256_state \<Rightarrow> 32 word list \<Rightarrow> sha256_state" where
  "sha256_compress H block =
     sha256_add H (foldl sha256_round H (zip sha256_K (sha256_schedule 48 block)))"

definition sha256 :: "nat list \<Rightarrow> sha256_state" where
  "sha256 msg =
     (let padded = sha256_pad msg
      in foldl (\<lambda>H i. sha256_compress H (sha256_block padded i)) sha256_init
           [0..<length padded div 64])"

definition hex32 :: "32 word \<Rightarrow> string" where
  "hex32 w = map (\<lambda>i. hex_digit (unat (drop_bit (4 * i) w AND 0xF))) [7, 6, 5, 4, 3, 2, 1, 0]"

fun hexdigest :: "sha256_state \<Rightarrow> string" where
  "hexdigest (Sha256_State a b c d e f g h) =
     hex32 a @ hex32 b @ hex32 c @ hex32 d @ hex32 e @ hex32 f @ hex32 g @ hex32 h"

text \<open>\<open>str.encode()\<close>: UTF-8, for code points below 256.\<close>

definition utf8_encode :: "string \<Rightarrow> nat list" where
  "utf8_encode s =
     concat (map (\<lambda>c. if (of_char c :: nat) < 0x80 then [of_char c]
                       else [0xC0 + of_char c div 64, 0x80 + of_char c mod 64]) s)"

definition sha256_hexdigest :: "string \<Rightarrow> string" where
  "sha256_hexdigest s = hexdigest (sha256 (utf8_encode s))"

section \<open>Tabular data and the canonical hash\<close>

text \<open>
  A data frame by its column names and its rows, each row holding one cell per column;
  \<open>to_dict(orient='records')\<close> turns every row into a dictionary in column order.
\<close>

record frame =
  columns :: "string list"
  rows :: "json list list"

definition to_dict_records :: "frame \<Rightarrow> json list" where
  "to_dict_records df = map (\<lambda>row. JDict (zip (columns df) row)) (rows df)"

text \<open>
  What \<open>_stable_hash\<close> may be given: an object with \<open>to_dict\<close> (a data frame), a \<open>dict\<close>,
  or anything else, known by its \<open>str()\<close> and by its \<open>len()\<close> when it has one.
\<close>

datatype data =
    DataFrame frame
  | PlainDict "(string \<times> json) list"
  | Other string "nat option"

definition stable_hash :: "runtime \<Rightarrow> data \<Rightarrow> string" where
  "stable_hash rt data =
     (let data_str =
        (case data of
           DataFrame df \<Rightarrow> dumps (float_repr rt) True (JList (to_dict_records df))
         | PlainDict d \<Rightarrow> dumps (float_repr rt) True (JDict d)
         | Other s _ \<Rightarrow> dumps (float_repr rt) True (JStr s))
      in sha256_hexdigest data_str)"

text \<open>\<open>len(data)\<close> and \<open>data.columns\<close>.\<close>

definition data_len :: "data \<Rightarrow> exc + nat" where
  "data_len data =
     (case data of
        DataFrame df \<Rightarrow> Inr (length (rows df))
      | PlainDict d \<Rightarrow> Inr (length d)
      | Other _ (Some n) \<Rightarrow> Inr n
      | Other _ None \<Rightarrow> Inl (TypeError ''object has no len()''))"

definition data_columns :: "data \<Rightarrow> exc + string list" where
  "data_columns data =
     (case data of
        DataFrame df \<Rightarrow> Inr (columns df)
      | _ \<Rightarrow> Inl (AttributeError (''object has no attribute '' @ quoted ''columns'')))"

subsection \<open>The vocabulary of the specification's hashing property\<close>




section \<open>The storage collaborator\<close>

text \<open>
  The storage backend is an interface (\<open>GovernanceStorageBackend\<close>): what its
  operations return or raise is given by three functions, and the calls that write are
  logged in order, as a mock would.
\<close>

datatype db_call =
    InsertCall string pydict
  | UpdateCall string pydict pydict

record storage_backend =
  query_result :: "string \<Rightarrow> pyval list \<Rightarrow> exc + pyval"
  insert_result :: "string \<Rightarrow> pydict \<Rightarrow> exc + pyval"
  update_result :: "string \<Rightarrow> pydict \<Rightarrow> pydict \<Rightarrow> exc + pyval"
  calls :: "db_call list"

definition backend_query :: "storage_backend \<Rightarrow> string \<Rightarrow> pyval list \<Rightarrow> exc + pyval" where
  "backend_query sb sql params = query_result sb sql params"

definition backend_insert ::
  "storage_backend \<Rightarrow> string \<Rightarrow> pydict \<Rightarrow> (exc + pyval) \<times> storage_backend" where
  "backend_insert sb table record =
     (insert_result sb table record, sb\<lparr>calls := calls sb @ [InsertCall table record]\<rparr>)"

definition backend_update ::
  "storage_backend \<Rightarrow> string \<Rightarrow> pydict \<Rightarrow> pydict \<Rightarrow> (exc + pyval) \<times> storage_backend" where
  "backend_update sb table condition record =
     (update_result sb table condition record,
      sb\<lparr>calls := calls sb @ [UpdateCall table condition record]\<rparr>)"

section \<open>The lineage session\<close>

record LineageTracker =
  storage :: storage_backend
  current_lineage :: "DataLineage option"

definition LineageTracker_init :: "storage_backend \<Rightarrow> LineageTracker" where
  "LineageTracker_init storage_backend = \<lparr>storage = storage_backend, current_lineage = None\<rparr>"

text \<open>
  \<open>track_transformation\<close> returns its result (or the exception it raises) and the
  tracker after the call.  The step dictionary is built, in the order of its keys,
  before anything is mutated; the order in which Python lists the set differences of
  the column names is unspecified, and is here the order of the columns.
\<close>

definition track_transformation ::
  "runtime \<Rightarrow> LineageTracker \<Rightarrow> string \<Rightarrow> data \<Rightarrow> data \<Rightarrow> string \<Rightarrow> (exc + unit) \<times> LineageTracker" where
  "track_transformation rt self step_name input_data output_data transformation_code =
     (case current_lineage self of
        None \<Rightarrow>
          (Inl (ValueError ''Must call track_extraction() before track_transformation()''), self)
      | Some lineage \<Rightarrow>
          (let input_hash = stable_hash rt input_data;
               output_hash = stable_hash rt output_data
           in case
                pbind (data_len input_data) (\<lambda>row_count_before.
                pbind (data_len output_data) (\<lambda>row_count_after.
                pbind (data_columns output_data) (\<lambda>output_columns.
                pbind (data_columns input_data) (\<lambda>input_columns.
                  Inr [(''step'', PStr step_name),
                       (''input_hash'', PStr input_hash),
                       (''output_hash'', PStr output_hash),
                       (''transformation_code'', PStr transformation_code),
                       (''timestamp'', PTime (now rt)),
                       (''row_count_before'', PInt (int row_count_before)),
                       (''row_count_after'', PInt (int row_count_after)),
                       (''rows_removed'', PInt (int row_count_before - int row_count_after)),
                       (''columns_added'',
                          PList (map PStr (filter (\<lambda>c. c \<notin> set input_columns)
                                             (remdups output_columns)))),
                       (''columns_removed'',
                          PList (map PStr (filter (\<lambda>c. c \<notin> set output_columns)
                                             (remdups input_columns))))]))))
              of
                Inl e \<Rightarrow> (Inl e, self)
              | Inr transformation_step \<Rightarrow>
                  (let lineage' = lineage
                         \<lparr>transformation_pipeline :=
                            transformation_pipeline lineage @ [transformation_step],
                          content_hash := stable_hash rt output_data\<rparr>;
                       (result, storage') =
                         backend_update (storage self) ''data_lineage''
                           [(''dataset_id'', PStr (dataset_id lineage'))]
                           [(''transformation_pipeline'',
                               PList (map PDict (transformation_pipeline lineage'))),
                            (''content_hash'', PStr (content_hash lineage'))];
                       self' = self\<lparr>storage := storage', current_lineage := Some lineage'\<rparr>
                   in case result of
                        Inl e \<Rightarrow> (Inl e, self')
                      | Inr _ \<Rightarrow> (Inr (), self'))))"

definition link_to_model ::
  "runtime \<Rightarrow> LineageTracker \<Rightarrow> string \<Rightarrow> (exc + pydict) \<times> LineageTracker" where
  "link_to_model rt self model_id =
     (case current_lineage self of
        None \<Rightarrow> (Inl (ValueError ''No active lineage to link''), self)
      | Some lineage \<Rightarrow>
          (let link_record =
                 [(''dataset_id'', PStr (dataset_id lineage)),
                  (''model_id'', PStr model_id),
                  (''linked_at'', PTime (now rt)),
                  (''dataset_hash'', PStr (content_hash lineage))];
               (result, storage') = backend_insert (storage self) ''model_data_lineage'' link_record;
               self' = self\<lparr>storage := storage'\<rparr>
           in case result of
                Inl e \<Rightarrow> (Inl e, self')
              | Inr _ \<Rightarrow> (Inr link_record, self')))"

subsection \<open>Frames and collaborators of the tests and scenarios\<close>

definition test_runtime :: runtime where
  "test_runtime =
     \<lparr>now = 1000, float_repr = (\<lambda>_. ''0.0''), isoformat = (\<lambda>_. ''2024-01-01T00:00:00''),
      format_percent = (\<lambda>_. ''0.00%''), py_str = (\<lambda>_. ''?'')\<rparr>"

text \<open>A mock storage: queries return no rows, writes return \<open>True\<close>, nothing called yet.\<close>

definition mock_storage :: storage_backend where
  "mock_storage =
     \<lparr>query_result = (\<lambda>_ _. Inr (PList [])), insert_result = (\<lambda>_ _. Inr (PBool True)),
      update_result = (\<lambda>_ _ _. Inr (PBool True)), calls = []\<rparr>"

definition frame_ab :: frame where
  "frame_ab = \<lparr>columns = [''a'', ''b''], rows = [[JInt 1, JInt 4], [JInt 2, JInt 5], [JInt 3, JInt 6]]\<rparr>"


section \<open>Operations on untyped values\<close>

text \<open>
  The registry's metadata and the storage's rows are read through these: \<open>len(x)\<close>,
  \<open>x[0]\<close>, \<open>x[key]\<close>, \<open>x.get(key, default)\<close>, \<open>x.items()\<close>, iteration, \<open>key in x\<close>.
\<close>

definition py_len :: "pyval \<Rightarrow> exc + nat" where
  "py_len x =
     (case x of
        PStr s \<Rightarrow> Inr (length s)
      | PList xs \<Rightarrow> Inr (length xs)
      | PDict d \<Rightarrow> Inr (length d)
      | _ \<Rightarrow> Inl (TypeError (''object of type '' @ quoted (type_name x) @ '' has no len()'')))"

definition py_index0 :: "pyval \<Rightarrow> exc + pyval" where
  "py_index0 x =
     (case x of
        PList [] \<Rightarrow> Inl (IndexError ''list index out of range'')
      | PList (y # _) \<Rightarrow> Inr y
      | PStr [] \<Rightarrow> Inl (IndexError ''string index out of range'')
      | PStr (c # _) \<Rightarrow> Inr (PStr [c])
      | PDict _ \<Rightarrow> Inl (KeyError ''0'')
      | _ \<Rightarrow> Inl (TypeError (quoted (type_name x) @ '' object is not subscriptable'')))"

definition py_subscript :: "pyval \<Rightarrow> string \<Rightarrow> exc + pyval" where
  "py_subscript x k =
     (case x of
        PDict d \<Rightarrow> dict_item d k
      | PList _ \<Rightarrow> Inl (TypeError ''list indices must be integers or slices, not str'')
      | PStr _ \<Rightarrow> Inl (TypeError ''string indices must be integers'')
      | _ \<Rightarrow> Inl (TypeError (quoted (type_name x) @ '' object is not subscriptable'')))"

definition no_attribute :: "pyval \<Rightarrow> string \<Rightarrow> exc" where
  "no_attribute x attr =
     AttributeError (quoted (type_name x) @ '' object has no attribute '' @ quoted attr)"

definition py_get :: "pyval \<Rightarrow> string \<Rightarrow> pyval \<Rightarrow> exc + pyval" where
  "py_get x k dflt = (case x of PDict d \<Rightarrow> Inr (dict_get d k dflt) | _ \<Rightarrow> Inl (no_attribute x ''get''))"

definition py_items :: "pyval \<Rightarrow> exc + pydict" where
  "py_items x = (case x of PDict d \<Rightarrow> Inr d | _ \<Rightarrow> Inl (no_attribute x ''items''))"

definition py_iter :: "pyval \<Rightarrow> exc + pyval list" where
  "py_iter x =
     (case x of
        PList xs \<Rightarrow> Inr xs
      | PDict d \<Rightarrow> Inr (map (\<lambda>kv. PStr (fst kv)) d)
      | PStr s \<Rightarrow> Inr (map (\<lambda>c. PStr [c]) s)
      | _ \<Rightarrow> Inl (TypeError (quoted (type_name x) @ '' object is not iterable'')))"

fun is_substring :: "string \<Rightarrow> string \<Rightarrow> bool" where
  "is_substring s [] = (s = [])"
| "is_substring s (c # t) = (take (length s) (c # t) = s \<or> is_substring s t)"

definition py_contains :: "pyval \<Rightarrow> string \<Rightarrow> exc + bool" where
  "py_contains x k =
     (case x of
        PDict d \<Rightarrow> Inr (has_key d k)
      | PList xs \<Rightarrow> Inr (list_ex (py_eq (PStr k)) xs)
      | PStr s \<Rightarrow> Inr (is_substring k s)
      | _ \<Rightarrow> Inl (TypeError (''argument of type '' @ quoted (type_name x) @ '' is not iterable'')))"

text \<open>\<open>try: body except <handled>: handler\<close>.\<close>

definition try_except :: "(exc \<Rightarrow> bool) \<Rightarrow> exc + 'a \<Rightarrow> (exc \<Rightarrow> exc + 'a) \<Rightarrow> exc + 'a" where
  "try_except handled body handler =
     (case body of Inl e \<Rightarrow> if handled e then handler e else Inl e | Inr v \<Rightarrow> Inr v)"

definition key_or_type_error :: "exc \<Rightarrow> bool" where
  "key_or_type_error e = (case e of KeyError _ \<Rightarrow> True | TypeError _ \<Rightarrow> True | _ \<Rightarrow> False)"

text \<open>\<open>(datetime.now() - t).days\<close>: whole days, rounded down.\<close>

definition age_in_days :: "runtime \<Rightarrow> pyval \<Rightarrow> exc + int" where
  "age_in_days rt t =
     (case t of
        PTime completed \<Rightarrow> Inr ((now rt - completed) div 86400000000)
      | _ \<Rightarrow> Inl (TypeError (''unsupported operand type(s) for -: '' @
                   quoted ''datetime.datetime'' @ '' and '' @ quoted (type_name t))))"

text \<open>\<open>not rows or len(rows) == 0\<close>.\<close>

definition no_rows :: "pyval \<Rightarrow> exc + bool" where
  "no_rows x = (if \<not> truthy x then Inr True else pbind (py_len x) (\<lambda>n. Inr (n = 0)))"

text \<open>\<open>str\<close> of a list of plain strings.\<close>

definition str_list_repr :: "string list \<Rightarrow> string" where
  "str_list_repr xs = ''['' @ join_with '', '' (map quoted xs) @ '']''"

section \<open>The compliance gate\<close>

datatype RiskLevel = UNACCEPTABLE | HIGH | LIMITED | MINIMAL

fun RiskLevel_value :: "RiskLevel \<Rightarrow> string" where
  "RiskLevel_value UNACCEPTABLE = ''unacceptable''"
| "RiskLevel_value HIGH = ''high''"
| "RiskLevel_value LIMITED = ''limited''"
| "RiskLevel_value MINIMAL = ''minimal''"

text \<open>
  The gate without its catalog: the two collaborators and the thresholds.  The model
  registry is an interface too: \<open>registry model_id\<close> is what
  \<open>get_compliance_report(model_id)\<close> returns or raises.
\<close>

record gate_state =
  db :: storage_backend
  registry :: "string \<Rightarrow> exc + pyval"
  bias_threshold :: rat
  min_accuracy_high :: rat
  min_accuracy_limited :: rat
  min_f1_high :: rat
  min_f1_limited :: rat
  max_risk_assessment_age :: int
  max_security_assessment_age :: int

text \<open>A check function is a bound method: it reads the gate it belongs to.\<close>

record ComplianceCheck =
  name :: string
  required_for_risk_levels :: "RiskLevel list"
  check_function :: "runtime \<Rightarrow> gate_state \<Rightarrow> string \<Rightarrow> RiskLevel \<Rightarrow> exc + (bool \<times> string)"
  blocking :: bool
  description :: string

record ComplianceGate = gate_state +
  checks :: "ComplianceCheck list"

text \<open>
  The float literals of the source, as the doubles they denote (the nearest double to
  the decimal numeral).
\<close>

definition double_0_05 :: rat where "double_0_05 = 3602879701896397 / 72057594037927936"
definition double_0_10 :: rat where "double_0_10 = 3602879701896397 / 36028797018963968"
definition double_0_85 :: rat where "double_0_85 = 7656119366529843 / 9007199254740992"
definition double_0_75 :: rat where "double_0_75 = 3 / 4"
definition double_0_80 :: rat where "double_0_80 = 3602879701896397 / 4503599627370496"
definition double_0_70 :: rat where "double_0_70 = 3152519739159347 / 4503599627370496"
definition double_0_90 :: rat where "double_0_90 = 8106479329266893 / 9007199254740992"

subsection \<open>The check functions\<close>

definition verify_risk_assessment ::
  "runtime \<Rightarrow> gate_state \<Rightarrow> string \<Rightarrow> RiskLevel \<Rightarrow> exc + (bool \<times> string)" where
  "verify_risk_assessment rt self model_id risk_level =
     (case backend_query (db self) ''SELECT * FROM risk_assessments WHERE model_id = %s''
             [PStr model_id] of
        Inl e \<Rightarrow> Inr (False, ''Database error: '' @ exc_str e)
      | Inr assessment \<Rightarrow>
          pbind (no_rows assessment) (\<lambda>empty.
            if empty then Inr (False, ''No risk assessment found'')
            else
              (let max_age_days =
                     (if risk_level = HIGH then max_risk_assessment_age self else 365)
               in try_except key_or_type_error
                    (pbind (py_index0 assessment) (\<lambda>row.
                     pbind (py_subscript row ''completed_at'') (\<lambda>completed_at.
                     pbind (age_in_days rt completed_at) (\<lambda>age_days.
                       if age_days > max_age_days then
                         Inr (False, ''Assessment '' @ str_int age_days @ '' days old (max: '' @
                                     str_int max_age_days @ '')'')
                       else
                         pbind (py_index0 assessment) (\<lambda>row.
                         pbind (py_get row ''assessment_complete'' (PBool False)) (\<lambda>complete.
                           if \<not> truthy complete then
                             Inr (False, ''Assessment marked as incomplete'')
                           else
                             Inr (True, ''Valid assessment (age: '' @ str_int age_days @
                                        '' days)'')))))))
                    (\<lambda>e. Inr (False, ''Invalid assessment data: '' @ exc_str e)))))"

text \<open>The names of the required fields a step lacks (\<open>[f for f in required_fields if f not in step]\<close>).\<close>

fun missing_fields :: "pyval \<Rightarrow> string list \<Rightarrow> exc + string list" where
  "missing_fields step [] = Inr []"
| "missing_fields step (f # fs) =
     pbind (py_contains step f) (\<lambda>present.
     pbind (missing_fields step fs) (\<lambda>rest.
       Inr (if present then rest else f # rest)))"

text \<open>The loop over \<open>enumerate(transformation_pipeline)\<close>: the message of the first incomplete step.\<close>

fun first_incomplete_step :: "nat \<Rightarrow> pyval list \<Rightarrow> exc + string option" where
  "first_incomplete_step i [] = Inr None"
| "first_incomplete_step i (step # rest) =
     pbind (missing_fields step [''step'', ''timestamp'', ''input_hash'', ''output_hash'']) (\<lambda>missing.
       if missing \<noteq> [] then
         Inr (Some (''Step '' @ str_nat i @ '' missing fields: '' @ str_list_repr missing))
       else first_incomplete_step (Suc i) rest)"

definition verify_data_lineage ::
  "runtime \<Rightarrow> gate_state \<Rightarrow> string \<Rightarrow> RiskLevel \<Rightarrow> exc + (bool \<times> string)" where
  "verify_data_lineage rt self model_id risk_level =
     (case registry self model_id of
        Inl e \<Rightarrow> Inr (False, ''Could not retrieve model metadata: '' @ exc_str e)
      | Inr model_metadata \<Rightarrow>
          pbind (py_get model_metadata ''data_lineage_id'' PNone) (\<lambda>lineage_id.
            if \<not> truthy lineage_id then Inr (False, ''No data lineage ID'')
            else
              (case backend_query (db self) ''SELECT * FROM data_lineage WHERE dataset_id = %s''
                      [lineage_id] of
                 Inl e \<Rightarrow> Inr (False, ''Database error: '' @ exc_str e)
               | Inr lineage \<Rightarrow>
                   pbind (no_rows lineage) (\<lambda>empty.
                     if empty then
                       Inr (False, ''Lineage '' @ py_str rt lineage_id @ '' not found'')
                     else
                       pbind (py_index0 lineage) (\<lambda>row.
                       pbind (py_get row ''transformation_pipeline'' (PList [])) (\<lambda>pipeline.
                       pbind (py_len pipeline) (\<lambda>n.
                         if n = 0 then Inr (False, ''No transformation steps recorded'')
                         else
                           pbind (py_iter pipeline) (\<lambda>steps.
                           pbind (first_incomplete_step 0 steps) (\<lambda>incomplete.
                             case incomplete of
                               Some message \<Rightarrow> Inr (False, message)
                             | None \<Rightarrow>
                                 Inr (True, ''Complete lineage with '' @ str_nat n @
                                            '' steps''))))))))))"

text \<open>
  The loop of \<open>_verify_bias_thresholds\<close> over the items of the bias assessment: the
  messages of the attributes whose metric exceeds the threshold.  The inner \<open>get\<close> (the
  default of the outer one) is evaluated first.
\<close>

fun failed_bias_attributes :: "runtime \<Rightarrow> gate_state \<Rightarrow> pydict \<Rightarrow> exc + string list" where
  "failed_bias_attributes rt self [] = Inr []"
| "failed_bias_attributes rt self ((attribute, metrics) # rest) =
     pbind (py_get metrics ''disparate_impact'' (PFloat 1)) (\<lambda>fallback.
     pbind (py_get metrics ''demographic_parity_difference'' fallback) (\<lambda>demographic_parity.
     pbind (py_gt demographic_parity (PFloat (bias_threshold self))) (\<lambda>exceeded.
     pbind (failed_bias_attributes rt self rest) (\<lambda>failed_rest.
       Inr (if exceeded then
              (attribute @ '': '' @ format_percent rt (the (num_of demographic_parity)) @
               '' (threshold: '' @ format_percent rt (bias_threshold self) @ '')'') # failed_rest
            else failed_rest)))))"

definition verify_bias_thresholds ::
  "runtime \<Rightarrow> gate_state \<Rightarrow> string \<Rightarrow> RiskLevel \<Rightarrow> exc + (bool \<times> string)" where
  "verify_bias_thresholds rt self model_id risk_level =
     (case registry self model_id of
        Inl e \<Rightarrow> Inr (False, ''Could not retrieve model metadata: '' @ exc_str e)
      | Inr model_metadata \<Rightarrow>
          pbind (py_get model_metadata ''full_metadata'' (PDict [])) (\<lambda>full_metadata.
          pbind (py_get full_metadata ''bias_assessment'' (PDict [])) (\<lambda>bias_assessment.
            if \<not> truthy bias_assessment then Inr (False, ''No bias assessment results found'')
            else
              pbind (py_items bias_assessment) (\<lambda>items.
              pbind (failed_bias_attributes rt self items) (\<lambda>failed_attributes.
                if failed_attributes \<noteq> [] then
                  Inr (False, ''Bias thresholds exceeded for: '' @
                              join_with '', '' failed_attributes)
                else
                  pbind (py_len bias_assessment) (\<lambda>n.
                    Inr (True, ''Bias check passed for '' @ str_nat n @ '' attributes'')))))))"

definition verify_documentation ::
  "runtime \<Rightarrow> gate_state \<Rightarrow> string \<Rightarrow> RiskLevel \<Rightarrow> exc + (bool \<times> string)" where
  "verify_documentation rt self model_id risk_level =
     (case registry self model_id of
        Inl e \<Rightarrow> Inr (False, ''Could not retrieve model metadata: '' @ exc_str e)
      | Inr model_metadata \<Rightarrow>
          pbind (py_get model_metadata ''model_card_id'' PNone) (\<lambda>model_card_id.
            if \<not> truthy model_card_id then Inr (False, ''No model card'')
            else Inr (True, ''Documentation complete'')))"

definition verify_oversight_config ::
  "runtime \<Rightarrow> gate_state \<Rightarrow> string \<Rightarrow> RiskLevel \<Rightarrow> exc + (bool \<times> string)" where
  "verify_oversight_config rt self model_id risk_level =
     (case registry self model_id of
        Inl e \<Rightarrow> Inr (False, ''Could not retrieve model metadata: '' @ exc_str e)
      | Inr model_metadata \<Rightarrow>
          pbind (py_get model_metadata ''human_oversight_enabled'' PNone) (\<lambda>enabled.
            if \<not> truthy enabled then Inr (False, ''Human oversight not enabled'')
            else
              pbind (py_get model_metadata ''full_metadata'' (PDict [])) (\<lambda>full_metadata.
              pbind (py_get full_metadata ''oversight_measures'' (PList [])) (\<lambda>measures.
                if \<not> truthy measures then Inr (False, ''No oversight measures documented'')
                else
                  pbind (py_len measures) (\<lambda>n.
                    Inr (True, ''Oversight configured with '' @ str_nat n @ '' measures''))))))"

definition verify_performance ::
  "runtime \<Rightarrow> gate_state \<Rightarrow> string \<Rightarrow> RiskLevel \<Rightarrow> exc + (bool \<times> string)" where
  "verify_performance rt self model_id risk_level =
     (case registry self model_id of
        Inl e \<Rightarrow> Inr (False, ''Could not retrieve model metadata: '' @ exc_str e)
      | Inr model_metadata \<Rightarrow>
          pbind (py_get model_metadata ''full_metadata'' (PDict [])) (\<lambda>full_metadata.
          pbind (py_get full_metadata ''accuracy_metrics'' (PDict [])) (\<lambda>accuracy_metrics.
            if \<not> truthy accuracy_metrics then Inr (False, ''No performance metrics'')
            else
              (let min_accuracy =
                     (if risk_level = HIGH then min_accuracy_high self else min_accuracy_limited self);
                   min_f1 = (if risk_level = HIGH then min_f1_high self else min_f1_limited self)
               in
                 pbind (py_get accuracy_metrics ''accuracy'' (PInt 0)) (\<lambda>accuracy.
                 pbind (py_get accuracy_metrics ''f1'' (PInt 0)) (\<lambda>f1_fallback.
                 pbind (py_get accuracy_metrics ''f1_score'' f1_fallback) (\<lambda>f1_score.
                 pbind (py_lt accuracy (PFloat min_accuracy)) (\<lambda>accuracy_low.
                 pbind (py_lt f1_score (PFloat min_f1)) (\<lambda>f1_low.
                   (let issues =
                          (if accuracy_low then
                             [''Accuracy '' @ format_percent rt (the (num_of accuracy)) @
                              '' below '' @ format_percent rt min_accuracy]
                           else []) @
                          (if f1_low then
                             [''F1 score '' @ format_percent rt (the (num_of f1_score)) @
                              '' below '' @ format_percent rt min_f1]
                           else [])
                    in if issues \<noteq> [] then Inr (False, join_with ''; '' issues)
                       else
                         Inr (True, ''Performance passed (accuracy: '' @
                                    format_percent rt (the (num_of accuracy)) @ '', F1: '' @
                                    format_percent rt (the (num_of f1_score)) @ '')'')))))))))))"

definition verify_security ::
  "runtime \<Rightarrow> gate_state \<Rightarrow> string \<Rightarrow> RiskLevel \<Rightarrow> exc + (bool \<times> string)" where
  "verify_security rt self model_id risk_level =
     (case registry self model_id of
        Inl e \<Rightarrow> Inr (False, ''Could not retrieve model metadata: '' @ exc_str e)
      | Inr model_metadata \<Rightarrow>
          pbind (py_get model_metadata ''security_assessment_id'' PNone) (\<lambda>security_id.
            if \<not> truthy security_id then Inr (False, ''No security assessment performed'')
            else
              try_except (\<lambda>e. True)
                (pbind (backend_query (db self)
                          ''SELECT * FROM security_assessments WHERE assessment_id = %s''
                          [security_id]) (\<lambda>assessment.
                 pbind (no_rows assessment) (\<lambda>empty.
                   if empty then
                     Inr (False, ''Security assessment '' @ py_str rt security_id @ '' not found'')
                   else
                     pbind (py_index0 assessment) (\<lambda>row.
                     pbind (py_subscript row ''completed_at'') (\<lambda>assessed_at.
                     pbind (age_in_days rt assessed_at) (\<lambda>age_days.
                       if age_days > max_security_assessment_age self then
                         Inr (False, ''Security assessment '' @ str_int age_days @
                                     '' days old (max: '' @
                                     str_int (max_security_assessment_age self) @ '')'')
                       else
                         Inr (True, ''Security assessment completed '' @ str_int age_days @
                                    '' days ago'')))))))
                (\<lambda>e. Inr (False, ''Error checking security assessment: '' @ exc_str e))))"

subsection \<open>The catalog\<close>

definition define_checks :: "ComplianceCheck list" where
  "define_checks =
     [\<lparr>name = ''risk_assessment_complete'',
       required_for_risk_levels = [HIGH, LIMITED],
       check_function = verify_risk_assessment,
       blocking = True,
       description = ''Valid risk assessment must exist and be recent''\<rparr>,
      \<lparr>name = ''data_lineage_verified'',
       required_for_risk_levels = [HIGH],
       check_function = verify_data_lineage,
       blocking = True,
       description = ''Complete data lineage from source to model''\<rparr>,
      \<lparr>name = ''bias_assessment_passed'',
       required_for_risk_levels = [HIGH],
       check_function = verify_bias_thresholds,
       blocking = True,
       description = ''Bias metrics within acceptable thresholds''\<rparr>,
      \<lparr>name = ''technical_documentation_complete'',
       required_for_risk_levels = [HIGH, LIMITED],
       check_function = verify_documentation,
       blocking = True,
       description = ''Model card and technical docs complete''\<rparr>,
      \<lparr>name = ''human_oversight_configured'',
       required_for_risk_levels = [HIGH],
       check_function = verify_oversight_config,
       blocking = True,
       description = ''Human oversight measures configured''\<rparr>,
      \<lparr>name = ''performance_meets_threshold'',
       required_for_risk_levels = [HIGH, LIMITED],
       check_function = verify_performance,
       blocking = True,
       description = ''Model accuracy meets minimum standards''\<rparr>,
      \<lparr>name = ''security_scan_passed'',
       required_for_risk_levels = [HIGH],
       check_function = verify_security,
       blocking = False,
       description = ''Security vulnerability scan completed''\<rparr>]"

text \<open>
  \<open>__init__\<close>: the thresholds come from the optional configuration, each with its
  default (\<open>config.get(key, default)\<close>, on \<open>config or {}\<close>).
\<close>

record gate_config =
  cfg_bias_threshold :: "rat option"
  cfg_min_accuracy_high_risk :: "rat option"
  cfg_min_accuracy_limited_risk :: "rat option"
  cfg_min_f1_high_risk :: "rat option"
  cfg_min_f1_limited_risk :: "rat option"
  cfg_max_risk_assessment_age_days :: "int option"
  cfg_max_security_assessment_age_days :: "int option"

definition config_get :: "gate_config option \<Rightarrow> (gate_config \<Rightarrow> 'a option) \<Rightarrow> 'a \<Rightarrow> 'a" where
  "config_get config key dflt =
     (case config of
        None \<Rightarrow> dflt
      | Some c \<Rightarrow> (case key c of None \<Rightarrow> dflt | Some v \<Rightarrow> v))"

definition ComplianceGate_init ::
  "storage_backend \<Rightarrow> (string \<Rightarrow> exc + pyval) \<Rightarrow> gate_config option \<Rightarrow> ComplianceGate" where
  "ComplianceGate_init governance_db model_registry config =
     \<lparr>db = governance_db,
      registry = model_registry,
      bias_threshold = config_get config cfg_bias_threshold double_0_10,
      min_accuracy_high = config_get config cfg_min_accuracy_high_risk double_0_85,
      min_accuracy_limited = config_get config cfg_min_accuracy_limited_risk double_0_75,
      min_f1_high = config_get config cfg_min_f1_high_risk double_0_80,
      min_f1_limited = config_get config cfg_min_f1_limited_risk double_0_70,
      max_risk_assessment_age = config_get config cfg_max_risk_assessment_age_days 180,
      max_security_assessment_age = config_get config cfg_max_security_assessment_age_days 90,
      checks = define_checks\<rparr>"

subsection \<open>The report\<close>

text \<open>
  A check result and the report are dictionaries with fixed keys; the fields below are
  the keys \<open>check_name\<close>, \<open>description\<close>, \<open>passed\<close>, \<open>message\<close>, \<open>blocking\<close> and \<open>model_id\<close>,
  \<open>risk_level\<close>, \<open>can_deploy\<close>, \<open>checks_run\<close>, \<open>passed\<close>, \<open>warnings\<close>, \<open>failures\<close>, \<open>timestamp\<close>.
\<close>

record check_result =
  result_check_name :: string
  result_description :: string
  result_passed :: bool
  result_message :: string
  result_blocking :: bool

record report =
  report_model_id :: string
  report_risk_level :: string
  report_can_deploy :: bool
  report_checks_run :: nat
  report_passed :: "check_result list"
  report_warnings :: "check_result list"
  report_failures :: "check_result list"
  report_timestamp :: string

definition check_result_json :: "check_result \<Rightarrow> json" where
  "check_result_json r =
     JDict [(''check_name'', JStr (result_check_name r)),
            (''description'', JStr (result_description r)),
            (''passed'', JBool (result_passed r)),
            (''message'', JStr (result_message r)),
            (''blocking'', JBool (result_blocking r))]"

definition report_json :: "report \<Rightarrow> json" where
  "report_json r =
     JDict [(''model_id'', JStr (report_model_id r)),
            (''risk_level'', JStr (report_risk_level r)),
            (''can_deploy'', JBool (report_can_deploy r)),
            (''checks_run'', JInt (int (report_checks_run r))),
            (''passed'', JList (map check_result_json (report_passed r))),
            (''warnings'', JList (map check_result_json (report_warnings r))),
            (''failures'', JList (map check_result_json (report_failures r))),
            (''timestamp'', JStr (report_timestamp r))]"

subsection \<open>\<open>validate_deployment\<close>\<close>

text \<open>
  The loop over the catalog, with the three lists it appends to.  A check that does not
  apply to the risk level is skipped; an exception raised by a check function becomes a
  blocking failure.
\<close>

fun run_checks ::
  "runtime \<Rightarrow> gate_state \<Rightarrow> string \<Rightarrow> RiskLevel \<Rightarrow> ComplianceCheck list \<Rightarrow>
   check_result list \<times> check_result list \<times> check_result list \<Rightarrow>
   check_result list \<times> check_result list \<times> check_result list" where
  "run_checks rt self model_id risk_level [] (failures, warnings, passed_checks) =
     (failures, warnings, passed_checks)"
| "run_checks rt self model_id risk_level (check # rest) (failures, warnings, passed_checks) =
     (if risk_level \<notin> set (required_for_risk_levels check) then
        run_checks rt self model_id risk_level rest (failures, warnings, passed_checks)
      else
        (case check_function check rt self model_id risk_level of
           Inr (passed, message) \<Rightarrow>
             (let check_result =
                    \<lparr>result_check_name = name check,
                     result_description = description check,
                     result_passed = passed,
                     result_message = message,
                     result_blocking = blocking check\<rparr>
              in if passed then
                   run_checks rt self model_id risk_level rest
                     (failures, warnings, passed_checks @ [check_result])
                 else if blocking check then
                   run_checks rt self model_id risk_level rest
                     (failures @ [check_result], warnings, passed_checks)
                 else
                   run_checks rt self model_id risk_level rest
                     (failures, warnings @ [check_result], passed_checks))
         | Inl e \<Rightarrow>
             run_checks rt self model_id risk_level rest
               (failures @
                  [\<lparr>result_check_name = name check,
                    result_description = description check,
                    result_passed = False,
                    result_message = ''Check failed: '' @ exc_str e,
                    result_blocking = True\<rparr>],
                warnings, passed_checks)))"

definition audit_entry :: "runtime \<Rightarrow> string \<Rightarrow> report \<Rightarrow> pydict" where
  "audit_entry rt model_id report =
     [(''event_type'', PStr ''compliance_gate_validation''),
      (''model_id'', PStr model_id),
      (''can_deploy'', PBool (report_can_deploy report)),
      (''checks_run'', PInt (int (report_checks_run report))),
      (''failures_count'', PInt (int (length (report_failures report)))),
      (''full_report'', PStr (dumps (float_repr rt) False (report_json report))),
      (''timestamp'', PTime (now rt))]"

definition log_validation_attempt ::
  "runtime \<Rightarrow> ComplianceGate \<Rightarrow> string \<Rightarrow> report \<Rightarrow> (exc + pyval) \<times> storage_backend" where
  "log_validation_attempt rt self model_id report =
     backend_insert (db self) ''audit_log'' (audit_entry rt model_id report)"

definition validate_deployment ::
  "runtime \<Rightarrow> ComplianceGate \<Rightarrow> string \<Rightarrow> RiskLevel \<Rightarrow>
   (exc + (bool \<times> report)) \<times> ComplianceGate" where
  "validate_deployment rt self model_id risk_level =
     (let (failures, warnings, passed_checks) =
            run_checks rt (gate_state.truncate self) model_id risk_level (checks self) ([], [], []);
          can_deploy = (length failures = 0);
          report =
            \<lparr>report_model_id = model_id,
             report_risk_level = RiskLevel_value risk_level,
             report_can_deploy = can_deploy,
             report_checks_run =
               length (filter (\<lambda>c. risk_level \<in> set (required_for_risk_levels c)) (checks self)),
             report_passed = passed_checks,
             report_warnings = warnings,
             report_failures = failures,
             report_timestamp = isoformat rt (now rt)\<rparr>;
          (logged, db') = log_validation_attempt rt self model_id report
      in (case logged of
            Inl e \<Rightarrow> Inl e
          | Inr _ \<Rightarrow> Inr (can_deploy, report),
          self\<lparr>db := db'\<rparr>))"

subsection \<open>The vocabulary of the specification's gate properties\<close>

text \<open>A rule applies to a tier; its outcome; the result recorded for it; the list it belongs to.\<close>

definition applicable :: "RiskLevel \<Rightarrow> ComplianceCheck \<Rightarrow> bool" where
  "applicable risk_level check = (risk_level \<in> set (required_for_risk_levels check))"

definition outcome ::
  "runtime \<Rightarrow> ComplianceGate \<Rightarrow> string \<Rightarrow> RiskLevel \<Rightarrow> ComplianceCheck \<Rightarrow> exc + (bool \<times> string)" where
  "outcome rt self model_id risk_level check =
     check_function check rt (gate_state.truncate self) model_id risk_level"

datatype placement = In_passed | In_warnings | In_failures

definition placement_of :: "ComplianceCheck \<Rightarrow> exc + (bool \<times> string) \<Rightarrow> placement" where
  "placement_of check oc =
     (case oc of
        Inl e \<Rightarrow> In_failures
      | Inr (passed, message) \<Rightarrow>
          if passed then In_passed else if blocking check then In_failures else In_warnings)"

definition result_of :: "ComplianceCheck \<Rightarrow> exc + (bool \<times> string) \<Rightarrow> check_result" where
  "result_of check oc =
     (case oc of
        Inl e \<Rightarrow>
          \<lparr>result_check_name = name check, result_description = description check,
           result_passed = False, result_message = ''Check failed: '' @ exc_str e,
           result_blocking = True\<rparr>
      | Inr (passed, message) \<Rightarrow>
          \<lparr>result_check_name = name check, result_description = description check,
           result_passed = passed, result_message = message,
           result_blocking = blocking check\<rparr>)"

text \<open>
  The results of the applicable rules that belong to a list, in catalog order, and the
  report made of them.
\<close>

definition placed ::
  "runtime \<Rightarrow> ComplianceGate \<Rightarrow> string \<Rightarrow> RiskLevel \<Rightarrow> placement \<Rightarrow> check_result list" where
  "placed rt self model_id risk_level pl =
     map (\<lambda>c. result_of c (outcome rt self model_id risk_level c))
       (filter (\<lambda>c. applicable risk_level c \<and>
                    placement_of c (outcome rt self model_id risk_level c) = pl)
          (checks self))"

definition built_report :: "runtime \<Rightarrow> ComplianceGate \<Rightarrow> string \<Rightarrow> RiskLevel \<Rightarrow> report" where
  "built_report rt self model_id risk_level =
     \<lparr>report_model_id = model_id,
      report_risk_level = RiskLevel_value risk_level,
      report_can_deploy = (placed rt self model_id risk_level In_failures = []),
      report_checks_run = length (filter (applicable risk_level) (checks self)),
      report_passed = placed rt self model_id risk_level In_passed,
      report_warnings = placed rt self model_id risk_level In_warnings,
      report_failures = placed rt self model_id risk_level In_failures,
      report_timestamp = isoformat rt (now rt)\<rparr>"



subsection \<open>Gates of the scenarios\<close>

text \<open>
  A model whose metadata passes every blocking rule and names no security assessment;
  its risk assessment and its lineage are in the store.
\<close>

definition scenario_metadata :: pyval where
  "scenario_metadata =
     PDict [(''risk_level'', PStr ''high''),
            (''data_lineage_id'', PStr ''dataset_1''),
            (''model_card_id'', PStr ''card_1''),
            (''human_oversight_enabled'', PBool True),
            (''full_metadata'',
               PDict [(''bias_assessment'',
                         PDict [(''gender'', PDict [(''demographic_parity_difference'', PFloat double_0_05)])]),
                      (''oversight_measures'', PList [PStr ''human review of rejections'']),
                      (''accuracy_metrics'',
                         PDict [(''accuracy'', PFloat double_0_90), (''f1_score'', PFloat double_0_90)])])]"

definition scenario_query :: "string \<Rightarrow> pyval list \<Rightarrow> exc + pyval" where
  "scenario_query sql params =
     (if sql = ''SELECT * FROM risk_assessments WHERE model_id = %s'' then
        Inr (PList [PDict [(''completed_at'', PTime 0), (''assessment_complete'', PBool True)]])
      else if sql = ''SELECT * FROM data_lineage WHERE dataset_id = %s'' then
        Inr (PList [PDict [(''transformation_pipeline'',
                             PList [PDict (test_step ''extraction'' [] ''abc123'' (PTime 0))])]])
      else Inr (PList []))"

definition scenario_gate :: ComplianceGate where
  "scenario_gate =
     ComplianceGate_init (mock_storage\<lparr>query_result := scenario_query\<rparr>)
       (\<lambda>model_id. Inr scenario_metadata) None"

text \<open>The report expected for it at tier \<open>high\<close>.\<close>

definition scenario_report :: report where
  "scenario_report =
     \<lparr>report_model_id = ''model_v1'',
      report_risk_level = ''high'',
      report_can_deploy = True,
      report_checks_run = 7,
      report_passed =
        [\<lparr>result_check_name = ''risk_assessment_complete'',
          result_description = ''Valid risk assessment must exist and be recent'',
          result_passed = True, result_message = ''Valid assessment (age: 0 days)'',
          result_blocking = True\<rparr>,
         \<lparr>result_check_name = ''data_lineage_verified'',
          result_description = ''Complete data lineage from source to model'',
          result_passed = True, result_message = ''Complete lineage with 1 steps'',
          result_blocking = True\<rparr>,
         \<lparr>result_check_name = ''bias_assessment_passed'',
          result_description = ''Bias metrics within acceptable thresholds'',
          result_passed = True, result_message = ''Bias check passed for 1 attributes'',
          result_blocking = True\<rparr>,
         \<lparr>result_check_name = ''technical_documentation_complete'',
          result_description = ''Model card and technical docs complete'',
          result_passed = True, result_message = ''Documentation complete'',
          result_blocking = True\<rparr>,
         \<lparr>result_check_name = ''human_oversight_configured'',
          result_description = ''Human oversight measures configured'',
          result_passed = True, result_message = ''Oversight configured with 1 measures'',
          result_blocking = True\<rparr>,
         \<lparr>result_check_name = ''performance_meets_threshold'',
          result_description = ''Model accuracy meets minimum standards'',
          result_passed = True,
          result_message = ''Performance passed (accuracy: 0.00%, F1: 0.00%)'',
          result_blocking = True\<rparr>],
      report_warnings =
        [\<lparr>result_check_name = ''security_scan_passed'',
          result_description = ''Security vulnerability scan completed'',
          result_passed = False, result_message = ''No security assessment performed'',
          result_blocking = False\<rparr>],
      report_failures = [],
      report_timestamp = ''2024-01-01T00:00:00''\<rparr>"





text \<open>A gate whose storage raises on every insert.\<close>

definition failing_audit_gate :: ComplianceGate where
  "failing_audit_gate =
     ComplianceGate_init
       (mock_storage\<lparr>insert_result := (\<lambda>table record. Inl (CollaboratorError ''connection lost''))\<rparr>)
       (\<lambda>model_id. Inr scenario_metadata) None"

section \<open>Properties of the integrity check\<close>

lemma map_of_dict_set: "map_of (dict_set d k v) = (map_of d)(k \<mapsto> v)"
  by (induction d) (auto simp: fun_eq_iff)

lemma has_key_dict_set: "has_key (dict_set d k v) k' = (k' = k \<or> has_key d k')"
  by (simp add: has_key_def map_of_dict_set)

lemma dict_get_dict_set_other: "k' \<noteq> k \<Longrightarrow> dict_get (dict_set d k v) k' dflt = dict_get d k' dflt"
  by (simp add: dict_get_def map_of_dict_set)

text \<open>The two records of the repository's own tests.\<close>

lemma test_lineage_chain_validates_correct_chain:
  "validate_lineage_chain valid_two_step_record = Inr True"
  by (simp add: validate_lineage_chain_def valid_two_step_record_def test_lineage_def
      test_step_def dict_get_def dict_item_def has_key_def check_required_fields_def
      required_fields_def)

lemma test_lineage_chain_validates_continuity:
  "validate_lineage_chain broken_chain_record = Inr False"
  by (simp add: validate_lineage_chain_def broken_chain_record_def test_lineage_def
      test_step_def dict_get_def dict_item_def has_key_def check_required_fields_def
      required_fields_def)

lemma check_timestamp_ordering_sorted:
  "\<forall>s \<in> set p. step_time s \<noteq> None \<Longrightarrow> sorted (t0 # map (\<lambda>s. the (step_time s)) p) \<Longrightarrow>
   check_timestamp_ordering (PTime t0) p = Inr True"
proof (induction p arbitrary: t0)
  case Nil
  show ?case by simp
next
  case (Cons s p)
  from Cons.prems(1) obtain t where t: "map_of s ''timestamp'' = Some (PTime t)"
    by (auto simp: step_time_def split: option.splits pyval.splits)
  then have st: "step_time s = Some t"
    by (simp add: step_time_def)
  from Cons.prems(2) st have "t0 \<le> t" and "sorted (t # map (\<lambda>s. the (step_time s)) p)"
    by simp_all
  with Cons.IH [of t] Cons.prems(1) t show ?case
    by (simp add: dict_get_def)
qed

lemma check_timestamp_ordering_cong_map:
  "map (\<lambda>s. dict_get s ''timestamp'' PNone) p = map (\<lambda>s. dict_get s ''timestamp'' PNone) p' \<Longrightarrow>
   check_timestamp_ordering prev p = check_timestamp_ordering prev p'"
proof (induction p arbitrary: p' prev)
  case Nil
  then show ?case by simp
next
  case (Cons s p)
  then obtain s' q where p': "p' = s' # q"
    by (cases p') auto
  with Cons.prems have hd: "dict_get s ''timestamp'' PNone = dict_get s' ''timestamp'' PNone"
    and tl: "map (\<lambda>s. dict_get s ''timestamp'' PNone) p = map (\<lambda>s. dict_get s ''timestamp'' PNone) q"
    by simp_all
  show ?case
    unfolding p' by (simp add: Let_def hd Cons.IH [OF tl] cong: if_cong)
qed

lemma check_hash_continuity_eq:
  assumes "\<forall>i \<in> set idx. 0 < i \<and> i < length p"
    and "\<forall>s \<in> set p. has_key s ''input_hash'' \<and> has_key s ''output_hash''"
  shows "check_hash_continuity p idx = Inr (\<forall>i \<in> set idx. hash_linked (p ! (i - 1)) (p ! i))"
  using assms(1)
proof (induction idx)
  case Nil
  show ?case by simp
next
  case (Cons i idx)
  then have i: "i - 1 < length p" "i < length p"
    by auto
  with assms(2) obtain a b where ab: "map_of (p ! (i - 1)) ''output_hash'' = Some a"
      "map_of (p ! i) ''input_hash'' = Some b"
    by (metis has_key_def not_None_eq nth_mem)
  with Cons show ?case
    by (simp add: dict_item_def hash_linked_def)
qed

lemma required_fields_imp:
  "check_required_fields p \<Longrightarrow> \<forall>s \<in> set p. has_key s ''input_hash'' \<and> has_key s ''output_hash''"
  by (simp add: check_required_fields_def required_fields_def list_all_iff)

lemma upt_indices_ok: "\<forall>i \<in> set [1..<length p]. 0 < i \<and> i < length (p :: 'a list)"
  by simp

text \<open>
  Once the pipeline is non-empty, its timestamps pass the ordering loop and every step
  has the required fields, the verdict is hash continuity and the final hash.
\<close>

lemma validate_lineage_chain_eq:
  assumes "transformation_pipeline r \<noteq> []"
    and "check_timestamp_ordering (PTime (extraction_timestamp r)) (transformation_pipeline r) = Inr True"
    and "check_required_fields (transformation_pipeline r)"
  shows "validate_lineage_chain r =
     Inr ((\<forall>i \<in> set [1..<length (transformation_pipeline r)].
             hash_linked (transformation_pipeline r ! (i - 1)) (transformation_pipeline r ! i)) \<and>
          map_of (last (transformation_pipeline r)) ''output_hash'' = Some (PStr (content_hash r)))"
proof -
  let ?p = "transformation_pipeline r"
  have c: "check_hash_continuity ?p [1..<length ?p] =
      Inr (\<forall>i \<in> set [1..<length ?p]. hash_linked (?p ! (i - 1)) (?p ! i))"
    by (rule check_hash_continuity_eq [OF upt_indices_ok required_fields_imp [OF assms(3)]])
  from assms(1) have "last ?p \<in> set ?p"
    by simp
  with assms(3) have "has_key (last ?p) ''output_hash''"
    using required_fields_imp by blast
  then obtain out where out: "map_of (last ?p) ''output_hash'' = Some out"
    by (auto simp: has_key_def)
  show ?thesis
    using assms c out
    by (auto simp: validate_lineage_chain_def Let_def dict_item_def)
qed

lemma validate_lineage_chain_TrueD:
  assumes "validate_lineage_chain r = Inr True"
  shows "transformation_pipeline r \<noteq> []"
    and "check_timestamp_ordering (PTime (extraction_timestamp r)) (transformation_pipeline r) = Inr True"
    and "check_required_fields (transformation_pipeline r)"
  using assms
  by (auto simp: validate_lineage_chain_def Let_def pbind_def split: if_splits sum.splits)

text \<open>
  Claim C10.  The ordering loop starts from the record's \<open>extraction_timestamp\<close>: a
  record whose first step is dated strictly before the extraction timestamp is rejected,
  whatever the rest of the record holds (in particular when every step carries a truthy
  timestamp).  This is a condition of the code beyond the five invariants of the
  specification.
\<close>

theorem first_step_before_extraction_is_rejected:
  assumes "transformation_pipeline r = s # rest"
    and "map_of s ''timestamp'' = Some (PTime t)"
    and "t < extraction_timestamp r"
  shows "validate_lineage_chain r = Inr False"
  using assms by (simp add: validate_lineage_chain_def dict_get_def)

theorem first_step_before_extraction_is_rejected_witness:
  "transformation_pipeline early_step_record = [test_step ''extraction'' [] ''abc123'' (PTime 99)] \<and>
   map_of (test_step ''extraction'' [] ''abc123'' (PTime 99)) ''timestamp'' = Some (PTime 99) \<and>
   99 < extraction_timestamp early_step_record \<and>
   validate_lineage_chain early_step_record = Inr False"
proof -
  have h1: "transformation_pipeline early_step_record = [test_step ''extraction'' [] ''abc123'' (PTime 99)]"
    by (simp add: early_step_record_def test_lineage_def)
  have h2: "map_of (test_step ''extraction'' [] ''abc123'' (PTime 99)) ''timestamp'' = Some (PTime 99)"
    by (simp add: test_step_def)
  have h3: "99 < extraction_timestamp early_step_record"
    by (simp add: early_step_record_def test_lineage_def)
  show ?thesis
    using h1 h2 h3 first_step_before_extraction_is_rejected [OF h1 h2 h3] by simp
qed

text \<open>
  Claim C5 (the code departs from it).  \<open>validate_lineage_chain\<close> is not total: after a
  step with a missing (or \<open>None\<close>) timestamp, \<open>prev_timestamp\<close> is \<open>None\<close>, and the next
  step that carries a datetime is compared with it, which raises \<open>TypeError\<close>.  Here the
  first step has no \<open>timestamp\<close> key and the second is dated.
\<close>

theorem validate_lineage_chain_raises_on_undated_step:
  "validate_lineage_chain undated_then_dated_record =
     Inl (unsupported_operands ''<'' (PTime 101) PNone)"
  by (simp add: validate_lineage_chain_def undated_then_dated_record_def test_lineage_def
      test_step_def dict_get_def py_lt.simps)

text \<open>
  Claim C3, as stated, fails: the record below satisfies every condition of the
  specification's round trip, and is rejected because its only step is dated before the
  record's extraction timestamp.
\<close>

theorem round_trip_chain_rejected_counterexample:
  "spec_round_trip_record early_step_record \<and> validate_lineage_chain early_step_record = Inr False"
  by (simp add: spec_round_trip_record_def early_step_record_def test_lineage_def test_step_def
      required_fields_def has_key_def step_time_def validate_lineage_chain_def dict_get_def)

text \<open>
  Claim C3, amended.  A record with a non-empty pipeline whose steps each carry the four
  fields, with datetimes that never decrease from step to step and a first step not
  dated before the record's extraction timestamp, where each step's input hash equals the
  previous step's output hash and the content hash equals the last output hash, is
  accepted.
\<close>

theorem round_trip_chain_validates:
  assumes "spec_round_trip_record r"
    and "extraction_timestamp r \<le> the (step_time (hd (transformation_pipeline r)))"
  shows "validate_lineage_chain r = Inr True"
proof -
  let ?p = "transformation_pipeline r"
  from assms(1) have ne: "?p \<noteq> []"
    and fields: "check_required_fields ?p"
    and dated: "\<forall>s \<in> set ?p. step_time s \<noteq> None"
    and sorted: "sorted (map (\<lambda>s. the (step_time s)) ?p)"
    and linked: "\<forall>i \<in> set [1..<length ?p]. hash_linked (?p ! (i - 1)) (?p ! i)"
    and final: "map_of (last ?p) ''output_hash'' = Some (PStr (content_hash r))"
    by (simp_all add: spec_round_trip_record_def Let_def check_required_fields_def list_all_iff)
  from ne assms(2) sorted have "sorted (extraction_timestamp r # map (\<lambda>s. the (step_time s)) ?p)"
    by (cases ?p) auto
  with dated have "check_timestamp_ordering (PTime (extraction_timestamp r)) ?p = Inr True"
    by (rule check_timestamp_ordering_sorted)
  with ne fields linked final show ?thesis
    by (simp add: validate_lineage_chain_eq)
qed

theorem round_trip_chain_validates_witness:
  "spec_round_trip_record valid_two_step_record \<and>
   extraction_timestamp valid_two_step_record
     \<le> the (step_time (hd (transformation_pipeline valid_two_step_record))) \<and>
   validate_lineage_chain valid_two_step_record = Inr True"
proof -
  have h1: "spec_round_trip_record valid_two_step_record"
    by (simp add: spec_round_trip_record_def valid_two_step_record_def test_lineage_def
        test_step_def required_fields_def has_key_def step_time_def hash_linked_def)
  have h2: "extraction_timestamp valid_two_step_record
     \<le> the (step_time (hd (transformation_pipeline valid_two_step_record)))"
    by (simp add: valid_two_step_record_def test_lineage_def test_step_def step_time_def)
  show ?thesis
    using h1 h2 round_trip_chain_validates [OF h1 h2] by simp
qed

text \<open>
  Claim C4.  On a record that validates: overwriting the \<open>input_hash\<close> of any step but the
  first with a value that differs (by Python's \<open>!=\<close>) from the preceding step's output
  hash makes validation return false; so does replacing \<open>content_hash\<close> by any string
  other than the last step's output hash.  (A step other than the first exists only in
  a pipeline of at least two steps.)
\<close>

theorem tampering_breaks_validation:
  assumes "validate_lineage_chain r = Inr True"
  shows "(\<forall>i v prev_output.
            1 \<le> i \<and> i < length (transformation_pipeline r) \<and>
            map_of (transformation_pipeline r ! (i - 1)) ''output_hash'' = Some prev_output \<and>
            \<not> py_eq prev_output v \<longrightarrow>
            validate_lineage_chain
              (r\<lparr>transformation_pipeline :=
                   (transformation_pipeline r)
                     [i := dict_set (transformation_pipeline r ! i) ''input_hash'' v]\<rparr>) = Inr False) \<and>
         (\<forall>h. map_of (last (transformation_pipeline r)) ''output_hash'' \<noteq> Some (PStr h) \<longrightarrow>
            validate_lineage_chain (r\<lparr>content_hash := h\<rparr>) = Inr False)"
proof (intro conjI allI impI)
  let ?p = "transformation_pipeline r"
  note valid = validate_lineage_chain_TrueD [OF assms]
  fix i v prev_output
  assume "1 \<le> i \<and> i < length ?p \<and> map_of (?p ! (i - 1)) ''output_hash'' = Some prev_output \<and>
    \<not> py_eq prev_output v"
  then have i: "1 \<le> i" "i < length ?p"
    and prev: "map_of (?p ! (i - 1)) ''output_hash'' = Some prev_output"
    and differs: "\<not> py_eq prev_output v"
    by simp_all
  let ?p' = "?p[i := dict_set (?p ! i) ''input_hash'' v]"
  let ?r' = "r\<lparr>transformation_pipeline := ?p'\<rparr>"
  have "map (\<lambda>s. dict_get s ''timestamp'' PNone) ?p' = map (\<lambda>s. dict_get s ''timestamp'' PNone) ?p"
    using i by (simp add: map_update dict_get_dict_set_other list_update_same_conv)
  then have ts: "map (\<lambda>s. dict_get s ''timestamp'' PNone) ?p = map (\<lambda>s. dict_get s ''timestamp'' PNone) ?p'"
    by (rule sym)
  have 1: "transformation_pipeline ?r' \<noteq> []"
    using valid(1) by simp
  have 2: "check_timestamp_ordering (PTime (extraction_timestamp ?r')) (transformation_pipeline ?r') = Inr True"
    using valid(2) check_timestamp_ordering_cong_map [OF ts] by simp
  have 3: "check_required_fields (transformation_pipeline ?r')"
    using valid(3) i
    by (auto simp: check_required_fields_def list_all_iff has_key_dict_set dest!: set_update_subset_insert [THEN subsetD])
  from i have "i \<noteq> i - 1"
    by arith
  then have before: "?p' ! (i - 1) = ?p ! (i - 1)"
    by (rule nth_list_update_neq)
  from i have at: "?p' ! i = dict_set (?p ! i) ''input_hash'' v"
    by simp
  have broken: "\<not> hash_linked (?p' ! (i - 1)) (?p' ! i)"
    unfolding before at using prev differs by (simp add: hash_linked_def map_of_dict_set)
  have mem: "i \<in> set [1..<length ?p']"
    using i by simp
  from broken mem have nb: "\<not> (\<forall>j \<in> set [1..<length ?p']. hash_linked (?p' ! (j - 1)) (?p' ! j))"
    by blast
  have sel: "transformation_pipeline ?r' = ?p'"
    by simp
  show "validate_lineage_chain ?r' = Inr False"
    unfolding validate_lineage_chain_eq [OF 1 2 3] sel using nb by simp
next
  note valid = validate_lineage_chain_TrueD [OF assms]
  fix h
  assume a: "map_of (last (transformation_pipeline r)) ''output_hash'' \<noteq> Some (PStr h)"
  let ?r' = "r\<lparr>content_hash := h\<rparr>"
  have 1: "transformation_pipeline ?r' \<noteq> []"
    using valid(1) by simp
  have 2: "check_timestamp_ordering (PTime (extraction_timestamp ?r')) (transformation_pipeline ?r') = Inr True"
    using valid(2) by simp
  have 3: "check_required_fields (transformation_pipeline ?r')"
    using valid(3) by simp
  show "validate_lineage_chain ?r' = Inr False"
    unfolding validate_lineage_chain_eq [OF 1 2 3] using a by simp
qed

theorem tampering_breaks_validation_witness:
  "validate_lineage_chain valid_two_step_record = Inr True \<and>
   validate_lineage_chain
     (valid_two_step_record\<lparr>transformation_pipeline :=
        (transformation_pipeline valid_two_step_record)
          [1 := dict_set (transformation_pipeline valid_two_step_record ! 1) ''input_hash''
                  (PStr ''xyz789'')]\<rparr>) = Inr False \<and>
   validate_lineage_chain (valid_two_step_record\<lparr>content_hash := ''abc123''\<rparr>) = Inr False"
proof -
  have v: "validate_lineage_chain valid_two_step_record = Inr True"
    by (rule test_lineage_chain_validates_correct_chain)
  note t = tampering_breaks_validation [OF v]
  have a: "validate_lineage_chain
     (valid_two_step_record\<lparr>transformation_pipeline :=
        (transformation_pipeline valid_two_step_record)
          [1 := dict_set (transformation_pipeline valid_two_step_record ! 1) ''input_hash''
                  (PStr ''xyz789'')]\<rparr>) = Inr False"
    using t [THEN conjunct1, rule_format, where i = 1 and v = "PStr ''xyz789''"
        and prev_output = "PStr ''abc123''"]
    by (simp add: valid_two_step_record_def test_lineage_def test_step_def)
  have b: "validate_lineage_chain (valid_two_step_record\<lparr>content_hash := ''abc123''\<rparr>) = Inr False"
    using t [THEN conjunct2, rule_format, where h = "''abc123''"]
    by (simp add: valid_two_step_record_def test_lineage_def test_step_def)
  show ?thesis
    using v a b by simp
qed

section \<open>Properties of the canonical hash and of the lineage session\<close>









text \<open>
  Claim C9.  On a tracker with no active lineage (as \<open>__init__\<close> leaves it, until
  \<open>track_extraction\<close> is called), \<open>track_transformation\<close> and \<open>link_to_model\<close> raise
  \<open>ValueError\<close> and leave the tracker as it was: no lineage record is created or
  modified and the storage collaborator sees no call.
\<close>

theorem no_active_lineage_is_a_state_error:
  assumes "current_lineage self = None"
  shows "track_transformation rt self step_name input_data output_data transformation_code =
           (Inl (ValueError ''Must call track_extraction() before track_transformation()''), self) \<and>
         link_to_model rt self model_id = (Inl (ValueError ''No active lineage to link''), self)"
  using assms by (simp add: track_transformation_def link_to_model_def)

theorem no_active_lineage_is_a_state_error_witness:
  "current_lineage (LineageTracker_init mock_storage) = None \<and>
   track_transformation test_runtime (LineageTracker_init mock_storage) ''test_transform''
       (DataFrame frame_ab) (DataFrame frame_ab) ''df.copy()'' =
     (Inl (ValueError ''Must call track_extraction() before track_transformation()''),
      LineageTracker_init mock_storage) \<and>
   link_to_model test_runtime (LineageTracker_init mock_storage) ''model_v1'' =
     (Inl (ValueError ''No active lineage to link''), LineageTracker_init mock_storage) \<and>
   calls (storage (LineageTracker_init mock_storage)) = []"
proof -
  have h: "current_lineage (LineageTracker_init mock_storage) = None"
    by (simp add: LineageTracker_init_def)
  have c: "calls (storage (LineageTracker_init mock_storage)) = []"
    by (simp add: LineageTracker_init_def mock_storage_def)
  show ?thesis
    using h c no_active_lineage_is_a_state_error [OF h, of test_runtime "''test_transform''"
        "DataFrame frame_ab" "DataFrame frame_ab" "''df.copy()''" "''model_v1''"]
    by simp
qed

text \<open>With an active lineage the step is appended and one update is sent.\<close>

lemma track_transformation_appends:
  assumes "current_lineage self = Some lineage"
    and "update_result (storage self) ''data_lineage''
           [(''dataset_id'', PStr (dataset_id lineage))]
           [(''transformation_pipeline'', PList (map PDict (transformation_pipeline lineage @ [st]))),
            (''content_hash'', PStr (stable_hash rt (DataFrame out)))] = Inr v"
    and "track_transformation rt self step_name (DataFrame inp) (DataFrame out) code = (res, self')"
    and "st = [(''step'', PStr step_name),
               (''input_hash'', PStr (stable_hash rt (DataFrame inp))),
               (''output_hash'', PStr (stable_hash rt (DataFrame out))),
               (''transformation_code'', PStr code),
               (''timestamp'', PTime (now rt)),
               (''row_count_before'', PInt (int (length (rows inp)))),
               (''row_count_after'', PInt (int (length (rows out)))),
               (''rows_removed'', PInt (int (length (rows inp)) - int (length (rows out)))),
               (''columns_added'',
                  PList (map PStr (filter (\<lambda>c. c \<notin> set (columns inp)) (remdups (columns out))))),
               (''columns_removed'',
                  PList (map PStr (filter (\<lambda>c. c \<notin> set (columns out)) (remdups (columns inp)))))]"
  shows "res = Inr () \<and>
         current_lineage self' =
           Some (lineage\<lparr>transformation_pipeline := transformation_pipeline lineage @ [st],
                         content_hash := stable_hash rt (DataFrame out)\<rparr>) \<and>
         length (calls (storage self')) = Suc (length (calls (storage self)))"
  using assms
  by (auto simp: track_transformation_def data_len_def data_columns_def backend_update_def Let_def)

section \<open>Properties of the compliance gate\<close>

lemma py_gt_PFloat:
  "py_gt v (PFloat t) =
     (case num_of v of Some x \<Rightarrow> Inr (t < x) | None \<Rightarrow> Inl (unsupported_operands ''>'' v (PFloat t)))"
  by (cases v) (simp_all add: py_gt_def py_lt.simps)

lemma py_lt_PFloat:
  "py_lt v (PFloat t) =
     (case num_of v of Some x \<Rightarrow> Inr (x < t) | None \<Rightarrow> Inl (unsupported_operands ''<'' v (PFloat t)))"
  by (cases v) (simp_all add: py_lt.simps)

text \<open>The loop of \<open>validate_deployment\<close> files every applicable rule by its outcome.\<close>

lemma run_checks_eq:
  "run_checks rt st mid tier cs (f, w, p) =
     (f @ map (\<lambda>c. result_of c (check_function c rt st mid tier))
            (filter (\<lambda>c. applicable tier c \<and>
                         placement_of c (check_function c rt st mid tier) = In_failures) cs),
      w @ map (\<lambda>c. result_of c (check_function c rt st mid tier))
            (filter (\<lambda>c. applicable tier c \<and>
                         placement_of c (check_function c rt st mid tier) = In_warnings) cs),
      p @ map (\<lambda>c. result_of c (check_function c rt st mid tier))
            (filter (\<lambda>c. applicable tier c \<and>
                         placement_of c (check_function c rt st mid tier) = In_passed) cs))"
proof (induction cs arbitrary: f w p)
  case Nil
  show ?case by simp
next
  case (Cons c cs)
  show ?case
  proof (cases "applicable tier c")
    case False
    then show ?thesis
      using Cons.IH by (simp add: applicable_def)
  next
    case True
    show ?thesis
    proof (cases "check_function c rt st mid tier")
      case (Inl e)
      with True show ?thesis
        using Cons.IH by (simp add: applicable_def placement_of_def result_of_def)
    next
      case (Inr pm)
      obtain passed message where pm: "pm = (passed, message)"
        by (cases pm)
      with True Inr show ?thesis
        using Cons.IH by (simp add: applicable_def placement_of_def result_of_def)
    qed
  qed
qed

text \<open>The report \<open>validate_deployment\<close> builds, in the vocabulary of the specification.\<close>

lemma validate_deployment_eq:
  "validate_deployment rt self mid tier =
     (case insert_result (db self) ''audit_log'' (audit_entry rt mid (built_report rt self mid tier)) of
        Inl e \<Rightarrow> Inl e
      | Inr v \<Rightarrow> Inr (report_can_deploy (built_report rt self mid tier), built_report rt self mid tier),
      self\<lparr>db := (db self)\<lparr>calls := calls (db self) @
          [InsertCall ''audit_log'' (audit_entry rt mid (built_report rt self mid tier))]\<rparr>\<rparr>)"
  by (simp add: validate_deployment_def run_checks_eq built_report_def placed_def outcome_def
      applicable_def [abs_def] log_validation_attempt_def backend_insert_def Let_def
      split: sum.splits)

lemma placement_partition:
  "length (filter (\<lambda>c. A c \<and> pl c = In_passed) cs) +
   length (filter (\<lambda>c. A c \<and> pl c = In_warnings) cs) +
   length (filter (\<lambda>c. A c \<and> pl c = In_failures) cs) = length (filter A cs)"
proof (induction cs)
  case Nil
  show ?case by simp
next
  case (Cons c cs)
  then show ?case
    by (cases "pl c") auto
qed



lemma scenario_outcomes:
  "verify_risk_assessment test_runtime (gate_state.truncate scenario_gate) ''model_v1'' HIGH =
     Inr (True, ''Valid assessment (age: 0 days)'')"
  "verify_data_lineage test_runtime (gate_state.truncate scenario_gate) ''model_v1'' HIGH =
     Inr (True, ''Complete lineage with 1 steps'')"
  "verify_bias_thresholds test_runtime (gate_state.truncate scenario_gate) ''model_v1'' HIGH =
     Inr (True, ''Bias check passed for 1 attributes'')"
  "verify_documentation test_runtime (gate_state.truncate scenario_gate) ''model_v1'' HIGH =
     Inr (True, ''Documentation complete'')"
  "verify_oversight_config test_runtime (gate_state.truncate scenario_gate) ''model_v1'' HIGH =
     Inr (True, ''Oversight configured with 1 measures'')"
  "verify_performance test_runtime (gate_state.truncate scenario_gate) ''model_v1'' HIGH =
     Inr (True, ''Performance passed (accuracy: 0.00%, F1: 0.00%)'')"
  "verify_security test_runtime (gate_state.truncate scenario_gate) ''model_v1'' HIGH =
     Inr (False, ''No security assessment performed'')"
  by (simp_all add: scenario_gate_def ComplianceGate_init_def config_get_def
      gate_state.truncate_def mock_storage_def test_runtime_def scenario_query_def
      scenario_metadata_def
      verify_risk_assessment_def verify_data_lineage_def verify_bias_thresholds_def
      verify_documentation_def verify_oversight_config_def verify_performance_def
      verify_security_def backend_query_def no_rows_def py_len_def py_index0_def py_subscript_def
      py_get_def py_items_def py_iter_def py_contains_def try_except_def key_or_type_error_def
      age_in_days_def dict_get_def dict_item_def has_key_def test_step_def py_gt_PFloat
      py_lt_PFloat str_int_def str_nat.simps hex_digit_def double_0_05_def double_0_10_def
      double_0_85_def double_0_80_def double_0_90_def Let_def)

lemma scenario_gate_checks: "checks scenario_gate = define_checks"
  by (simp add: scenario_gate_def ComplianceGate_init_def)

lemma scenario_placed:
  "placed test_runtime scenario_gate ''model_v1'' HIGH In_passed = report_passed scenario_report"
  "placed test_runtime scenario_gate ''model_v1'' HIGH In_warnings = report_warnings scenario_report"
  "placed test_runtime scenario_gate ''model_v1'' HIGH In_failures = report_failures scenario_report"
  by (simp_all add: placed_def scenario_gate_checks define_checks_def outcome_def applicable_def
      placement_of_def result_of_def scenario_outcomes scenario_report_def)

lemma scenario_validate:
  "fst (validate_deployment test_runtime scenario_gate ''model_v1'' HIGH) =
     Inr (True, scenario_report)"
proof -
  have ins: "insert_result (db scenario_gate) = (\<lambda>table record. Inr (PBool True))"
    by (simp add: scenario_gate_def ComplianceGate_init_def mock_storage_def)
  have n: "length (filter (applicable HIGH) (checks scenario_gate)) = 7"
    by (simp add: scenario_gate_checks define_checks_def applicable_def)
  show ?thesis
    by (simp add: validate_deployment_eq built_report_def scenario_placed ins n)
      (simp add: scenario_report_def test_runtime_def)
qed

lemma only_security_fails:
  assumes "checks self = define_checks"
    and "\<forall>c \<in> set (checks self). applicable HIGH c \<and> name c \<noteq> ''security_scan_passed'' \<longrightarrow>
           (\<exists>m. outcome rt self mid HIGH c = Inr (True, m))"
    and "\<forall>c \<in> set (checks self). name c = ''security_scan_passed'' \<longrightarrow>
           (\<exists>m. outcome rt self mid HIGH c = Inr (False, m))"
  shows "placed rt self mid HIGH In_failures = []"
    and "map result_check_name (placed rt self mid HIGH In_warnings) = [''security_scan_passed'']"
proof -
  let ?st = "gate_state.truncate self"
  from assms(2) obtain m1 m2 m3 m4 m5 m6 where
    "verify_risk_assessment rt ?st mid HIGH = Inr (True, m1)"
    "verify_data_lineage rt ?st mid HIGH = Inr (True, m2)"
    "verify_bias_thresholds rt ?st mid HIGH = Inr (True, m3)"
    "verify_documentation rt ?st mid HIGH = Inr (True, m4)"
    "verify_oversight_config rt ?st mid HIGH = Inr (True, m5)"
    "verify_performance rt ?st mid HIGH = Inr (True, m6)"
    unfolding assms(1) by (auto simp: define_checks_def outcome_def applicable_def)
  moreover from assms(3) obtain m7 where "verify_security rt ?st mid HIGH = Inr (False, m7)"
    unfolding assms(1) by (auto simp: define_checks_def outcome_def)
  ultimately show "placed rt self mid HIGH In_failures = []"
    and "map result_check_name (placed rt self mid HIGH In_warnings) = [''security_scan_passed'']"
    by (simp_all add: placed_def assms(1) define_checks_def outcome_def applicable_def
        placement_of_def result_of_def)
qed

text \<open>
  Claim C1.  Whenever \<open>validate_deployment\<close> returns a report: its three lists hold the
  results of exactly the catalog rules that apply to the tier, each in the list its
  outcome selects (passed; failed and non-blocking: warnings; failed and blocking, or an
  exception: failures), in catalog order, so that the lists together have one entry per
  applicable rule; \<open>checks_run\<close> counts the applicable rules; and \<open>can_deploy\<close> is true
  exactly when \<open>failures\<close> is empty.  In particular, with the catalog of \<open>_define_checks\<close>
  at tier \<open>high\<close>, when \<open>security_scan_passed\<close> fails and every other applicable rule
  passes, \<open>can_deploy\<close> is true, \<open>failures\<close> is empty and \<open>warnings\<close> holds the security result.
\<close>

theorem validate_deployment_partitions_results:
  assumes "fst (validate_deployment rt self mid tier) = Inr (can_deploy, rep)"
  shows "report_passed rep = placed rt self mid tier In_passed \<and>
         report_warnings rep = placed rt self mid tier In_warnings \<and>
         report_failures rep = placed rt self mid tier In_failures \<and>
         report_checks_run rep = length (filter (applicable tier) (checks self)) \<and>
         length (report_passed rep) + length (report_warnings rep) + length (report_failures rep)
           = report_checks_run rep \<and>
         can_deploy = (report_failures rep = []) \<and>
         report_can_deploy rep = can_deploy \<and>
         (checks self = define_checks \<and> tier = HIGH \<and>
          (\<forall>c \<in> set (checks self). applicable HIGH c \<and> name c \<noteq> ''security_scan_passed'' \<longrightarrow>
             (\<exists>m. outcome rt self mid HIGH c = Inr (True, m))) \<and>
          (\<forall>c \<in> set (checks self). name c = ''security_scan_passed'' \<longrightarrow>
             (\<exists>m. outcome rt self mid HIGH c = Inr (False, m))) \<longrightarrow>
          can_deploy \<and> report_failures rep = [] \<and>
          map result_check_name (report_warnings rep) = [''security_scan_passed''])"
proof -
  from assms have rep: "rep = built_report rt self mid tier"
    and cd: "can_deploy = (placed rt self mid tier In_failures = [])"
    by (auto simp: validate_deployment_eq built_report_def split: sum.splits)
  have count: "length (placed rt self mid tier In_passed) + length (placed rt self mid tier In_warnings)
      + length (placed rt self mid tier In_failures) = length (filter (applicable tier) (checks self))"
    unfolding placed_def length_map by (rule placement_partition)
  have general: "report_passed rep = placed rt self mid tier In_passed \<and>
         report_warnings rep = placed rt self mid tier In_warnings \<and>
         report_failures rep = placed rt self mid tier In_failures \<and>
         report_checks_run rep = length (filter (applicable tier) (checks self)) \<and>
         length (report_passed rep) + length (report_warnings rep) + length (report_failures rep)
           = report_checks_run rep \<and>
         can_deploy = (report_failures rep = []) \<and>
         report_can_deploy rep = can_deploy"
    using count by (simp add: rep cd built_report_def)
  have particular: "can_deploy \<and> report_failures rep = [] \<and>
          map result_check_name (report_warnings rep) = [''security_scan_passed'']"
    if h: "checks self = define_checks \<and> tier = HIGH \<and>
          (\<forall>c \<in> set (checks self). applicable HIGH c \<and> name c \<noteq> ''security_scan_passed'' \<longrightarrow>
             (\<exists>m. outcome rt self mid HIGH c = Inr (True, m))) \<and>
          (\<forall>c \<in> set (checks self). name c = ''security_scan_passed'' \<longrightarrow>
             (\<exists>m. outcome rt self mid HIGH c = Inr (False, m)))"
  proof -
    from h have c: "checks self = define_checks" and t: "tier = HIGH"
      and others: "\<forall>c \<in> set (checks self). applicable HIGH c \<and> name c \<noteq> ''security_scan_passed'' \<longrightarrow>
             (\<exists>m. outcome rt self mid HIGH c = Inr (True, m))"
      and security: "\<forall>c \<in> set (checks self). name c = ''security_scan_passed'' \<longrightarrow>
             (\<exists>m. outcome rt self mid HIGH c = Inr (False, m))"
      by blast+
    note only_security_fails [OF c others security]
    then show ?thesis
      by (simp add: rep cd t built_report_def)
  qed
  from general particular show ?thesis
    by blast
qed

theorem validate_deployment_partitions_results_witness:
  "fst (validate_deployment test_runtime scenario_gate ''model_v1'' HIGH) = Inr (True, scenario_report) \<and>
   checks scenario_gate = define_checks \<and>
   verify_risk_assessment test_runtime (gate_state.truncate scenario_gate) ''model_v1'' HIGH =
     Inr (True, ''Valid assessment (age: 0 days)'') \<and>
   verify_data_lineage test_runtime (gate_state.truncate scenario_gate) ''model_v1'' HIGH =
     Inr (True, ''Complete lineage with 1 steps'') \<and>
   verify_bias_thresholds test_runtime (gate_state.truncate scenario_gate) ''model_v1'' HIGH =
     Inr (True, ''Bias check passed for 1 attributes'') \<and>
   verify_documentation test_runtime (gate_state.truncate scenario_gate) ''model_v1'' HIGH =
     Inr (True, ''Documentation complete'') \<and>
   verify_oversight_config test_runtime (gate_state.truncate scenario_gate) ''model_v1'' HIGH =
     Inr (True, ''Oversight configured with 1 measures'') \<and>
   verify_performance test_runtime (gate_state.truncate scenario_gate) ''model_v1'' HIGH =
     Inr (True, ''Performance passed (accuracy: 0.00%, F1: 0.00%)'') \<and>
   verify_security test_runtime (gate_state.truncate scenario_gate) ''model_v1'' HIGH =
     Inr (False, ''No security assessment performed'') \<and>
   report_passed scenario_report = placed test_runtime scenario_gate ''model_v1'' HIGH In_passed \<and>
   report_warnings scenario_report = placed test_runtime scenario_gate ''model_v1'' HIGH In_warnings \<and>
   report_failures scenario_report = placed test_runtime scenario_gate ''model_v1'' HIGH In_failures \<and>
   report_checks_run scenario_report = 7 \<and>
   report_failures scenario_report = [] \<and>
   map result_check_name (report_warnings scenario_report) = [''security_scan_passed'']"
proof -
  note t = validate_deployment_partitions_results [OF scenario_validate]
  have others: "\<forall>c \<in> set (checks scenario_gate).
      applicable HIGH c \<and> name c \<noteq> ''security_scan_passed'' \<longrightarrow>
      (\<exists>m. outcome test_runtime scenario_gate ''model_v1'' HIGH c = Inr (True, m))"
    by (simp add: scenario_gate_checks define_checks_def outcome_def scenario_outcomes)
  have security: "\<forall>c \<in> set (checks scenario_gate). name c = ''security_scan_passed'' \<longrightarrow>
      (\<exists>m. outcome test_runtime scenario_gate ''model_v1'' HIGH c = Inr (False, m))"
    by (simp add: scenario_gate_checks define_checks_def outcome_def scenario_outcomes)
  from t scenario_gate_checks others security
  have "report_failures scenario_report = [] \<and>
      map result_check_name (report_warnings scenario_report) = [''security_scan_passed'']"
    by blast
  moreover from t have "report_passed scenario_report = placed test_runtime scenario_gate ''model_v1'' HIGH In_passed \<and>
      report_warnings scenario_report = placed test_runtime scenario_gate ''model_v1'' HIGH In_warnings \<and>
      report_failures scenario_report = placed test_runtime scenario_gate ''model_v1'' HIGH In_failures"
    by blast
  moreover have "report_checks_run scenario_report = 7"
    by (simp add: scenario_report_def)
  ultimately show ?thesis
    using scenario_validate scenario_gate_checks scenario_outcomes by simp
qed

text \<open>
  Claim C2, as stated, fails: when the storage collaborator raises on the insert of the
  audit entry, \<open>validate_deployment\<close> raises that exception and returns no report.
\<close>

theorem audit_failure_propagates_counterexample:
  "fst (validate_deployment test_runtime failing_audit_gate ''model_v1'' MINIMAL) =
     Inl (CollaboratorError ''connection lost'')"
  by (simp add: validate_deployment_eq failing_audit_gate_def ComplianceGate_init_def
      mock_storage_def)

text \<open>
  Claim C2, amended.  On every invocation, whatever the check functions, the storage
  queries and the registry return or raise, \<open>validate_deployment\<close> makes exactly one
  call that writes to the storage collaborator, after the checks: the insert into
  \<open>audit_log\<close> of the entry that summarises the attempt (model id, \<open>can_deploy\<close>,
  \<open>checks_run\<close>, the number of failures, the serialised report, the time).  When that
  insert returns, whatever it returns, the call returns the report; when it raises, the
  call raises the same exception.
\<close>

theorem validate_deployment_logs_once:
  "calls (db (snd (validate_deployment rt self mid tier))) =
     calls (db self) @
       [InsertCall ''audit_log''
          [(''event_type'', PStr ''compliance_gate_validation''),
           (''model_id'', PStr mid),
           (''can_deploy'', PBool (report_can_deploy (built_report rt self mid tier))),
           (''checks_run'', PInt (int (report_checks_run (built_report rt self mid tier)))),
           (''failures_count'', PInt (int (length (report_failures (built_report rt self mid tier))))),
           (''full_report'',
              PStr (dumps (float_repr rt) False (report_json (built_report rt self mid tier)))),
           (''timestamp'', PTime (now rt))]] \<and>
   (\<forall>v. insert_result (db self) ''audit_log'' (audit_entry rt mid (built_report rt self mid tier)) = Inr v \<longrightarrow>
      fst (validate_deployment rt self mid tier) =
        Inr (report_failures (built_report rt self mid tier) = [], built_report rt self mid tier)) \<and>
   (\<forall>e. insert_result (db self) ''audit_log'' (audit_entry rt mid (built_report rt self mid tier)) = Inl e \<longrightarrow>
      fst (validate_deployment rt self mid tier) = Inl e)"
  by (simp add: validate_deployment_eq audit_entry_def) (simp add: built_report_def)

theorem validate_deployment_logs_once_witness:
  "insert_result (db scenario_gate) ''audit_log''
     (audit_entry test_runtime ''model_v1'' (built_report test_runtime scenario_gate ''model_v1'' HIGH)) =
     Inr (PBool True) \<and>
   built_report test_runtime scenario_gate ''model_v1'' HIGH = scenario_report \<and>
   fst (validate_deployment test_runtime scenario_gate ''model_v1'' HIGH) = Inr (True, scenario_report) \<and>
   calls (db (snd (validate_deployment test_runtime scenario_gate ''model_v1'' HIGH))) =
     [InsertCall ''audit_log''
        [(''event_type'', PStr ''compliance_gate_validation''),
         (''model_id'', PStr ''model_v1''),
         (''can_deploy'', PBool True),
         (''checks_run'', PInt 7),
         (''failures_count'', PInt 0),
         (''full_report'', PStr (dumps (\<lambda>r. ''0.0'') False (report_json scenario_report))),
         (''timestamp'', PTime 1000)]]"
proof -
  have ins: "insert_result (db scenario_gate) ''audit_log''
      (audit_entry test_runtime ''model_v1'' (built_report test_runtime scenario_gate ''model_v1'' HIGH)) =
      Inr (PBool True)"
    by (simp add: scenario_gate_def ComplianceGate_init_def mock_storage_def)
  have n: "length (filter (applicable HIGH) (checks scenario_gate)) = 7"
    by (simp add: scenario_gate_checks define_checks_def applicable_def)
  have rep: "built_report test_runtime scenario_gate ''model_v1'' HIGH = scenario_report"
    by (simp add: built_report_def scenario_placed n) (simp add: scenario_report_def test_runtime_def)
  have c: "calls (db scenario_gate) = []"
    by (simp add: scenario_gate_def ComplianceGate_init_def mock_storage_def)
  note t = validate_deployment_logs_once [of test_runtime scenario_gate "''model_v1''" HIGH]
  from t ins have r: "fst (validate_deployment test_runtime scenario_gate ''model_v1'' HIGH) =
      Inr (report_failures (built_report test_runtime scenario_gate ''model_v1'' HIGH) = [],
           built_report test_runtime scenario_gate ''model_v1'' HIGH)"
    by blast
  from t have l: "calls (db (snd (validate_deployment test_runtime scenario_gate ''model_v1'' HIGH))) =
     calls (db scenario_gate) @
       [InsertCall ''audit_log''
          [(''event_type'', PStr ''compliance_gate_validation''),
           (''model_id'', PStr ''model_v1''),
           (''can_deploy'', PBool (report_can_deploy (built_report test_runtime scenario_gate ''model_v1'' HIGH))),
           (''checks_run'', PInt (int (report_checks_run (built_report test_runtime scenario_gate ''model_v1'' HIGH)))),
           (''failures_count'', PInt (int (length (report_failures (built_report test_runtime scenario_gate ''model_v1'' HIGH))))),
           (''full_report'',
              PStr (dumps (float_repr test_runtime) False (report_json (built_report test_runtime scenario_gate ''model_v1'' HIGH)))),
           (''timestamp'', PTime (now test_runtime))]]"
    by blast
  have fields: "report_can_deploy scenario_report = True" "report_checks_run scenario_report = 7"
      "report_failures scenario_report = []" "float_repr test_runtime = (\<lambda>r. ''0.0'')"
      "now test_runtime = 1000"
    by (simp_all add: scenario_report_def test_runtime_def)
  from ins rep r l show ?thesis
    unfolding rep c fields by simp
qed




subsection \<open>The bias rule\<close>










end
